theory Spec2Isabelle
  imports Main
begin

section \<open>Strings\<close>

text \<open>
  A JavaScript string is a sequence of UTF-16 code units, and \<open>length\<close>, \<open>substring\<close>
  and \<open>indexOf\<close> count code units. The model carries strings as \<^typ>\<open>string\<close>, one
  \<^typ>\<open>char\<close> per code unit, which covers the code units \<open>0..255\<close> (ASCII and Latin-1).
\<close>

definition isWhiteSpace :: "char \<Rightarrow> bool" where
  \<comment> \<open>the class \<open>\s\<close>, which is also what \<open>trim\<close> strips: TAB, LF, VT, FF, CR, SPACE, NBSP\<close>
  "isWhiteSpace c \<longleftrightarrow>
     c = CHR 0x09 \<or> c = CHR 0x0A \<or> c = CHR 0x0B \<or> c = CHR 0x0C \<or> c = CHR 0x0D \<or>
     c = CHR 0x20 \<or> c = CHR 0xA0"

definition isDigit :: "char \<Rightarrow> bool" where
  \<comment> \<open>the class \<open>\d\<close>\<close>
  "isDigit c \<longleftrightarrow> (let n = (of_char c :: nat) in 48 \<le> n \<and> n \<le> 57)"

definition isWordChar :: "char \<Rightarrow> bool" where
  \<comment> \<open>the class \<open>\w\<close>: letters, digits and the underscore\<close>
  "isWordChar c \<longleftrightarrow>
     (let n = (of_char c :: nat)
      in (48 \<le> n \<and> n \<le> 57) \<or> (65 \<le> n \<and> n \<le> 90) \<or> (97 \<le> n \<and> n \<le> 122) \<or> n = 95)"

definition isUpperCase :: "char \<Rightarrow> bool" where
  \<comment> \<open>\<open>A..Z\<close> and the Latin-1 capitals \<open>0xC0..0xDE\<close> without the multiplication sign\<close>
  "isUpperCase c \<longleftrightarrow>
     (let n = (of_char c :: nat)
      in (65 \<le> n \<and> n \<le> 90) \<or> (192 \<le> n \<and> n \<le> 222 \<and> n \<noteq> 215))"

definition lowerChar :: "char \<Rightarrow> char" where
  "lowerChar c = (if isUpperCase c then char_of ((of_char c :: nat) + 32) else c)"

definition toLowerCase :: "string \<Rightarrow> string" where
  "toLowerCase s = map lowerChar s"

definition trim :: "string \<Rightarrow> string" where
  "trim s = rev (dropWhile isWhiteSpace (rev (dropWhile isWhiteSpace s)))"

fun startsWith :: "string \<Rightarrow> string \<Rightarrow> bool" where
  "startsWith s [] = True"
| "startsWith [] (p # ps) = False"
| "startsWith (c # cs) (p # ps) = (c = p \<and> startsWith cs ps)"

fun str_includes :: "string \<Rightarrow> string \<Rightarrow> bool" where
  \<comment> \<open>\<open>s.includes(p)\<close>\<close>
  "str_includes [] p = (p = [])"
| "str_includes (c # cs) p = (startsWith (c # cs) p \<or> str_includes cs p)"

fun indexOfFrom :: "nat \<Rightarrow> string \<Rightarrow> string \<Rightarrow> nat option" where
  \<comment> \<open>the first position of \<open>p\<close> in \<open>s\<close>, counted from \<open>i\<close>; \<open>None\<close> is the source's \<open>-1\<close>\<close>
  "indexOfFrom i [] p = (if p = [] then Some i else None)"
| "indexOfFrom i (c # cs) p = (if startsWith (c # cs) p then Some i else indexOfFrom (Suc i) cs p)"

definition indexOf :: "string \<Rightarrow> string \<Rightarrow> nat option" where
  "indexOf s p = indexOfFrom 0 s p"

definition substring :: "string \<Rightarrow> int \<Rightarrow> int \<Rightarrow> string" where
  \<comment> \<open>\<open>s.substring(a, b)\<close>: both ends clamped to \<open>[0, length]\<close>, swapped when \<open>a > b\<close>\<close>
  "substring s a b =
     (let n = int (length s);
          a' = max 0 (min n a);
          b' = max 0 (min n b);
          lo = min a' b';
          hi = max a' b'
      in take (nat (hi - lo)) (drop (nat lo) s))"

definition substringFrom :: "string \<Rightarrow> int \<Rightarrow> string" where
  \<comment> \<open>\<open>s.substring(a)\<close>\<close>
  "substringFrom s a = substring s a (int (length s))"

fun join :: "string \<Rightarrow> string list \<Rightarrow> string" where
  \<comment> \<open>\<open>parts.join(sep)\<close>\<close>
  "join sep [] = []"
| "join sep [x] = x"
| "join sep (x # y # ys) = x @ sep @ join sep (y # ys)"

function split_ws :: "string \<Rightarrow> string list" where
  \<comment> \<open>\<open>s.split(/\s+/)\<close>: leading or trailing white space leaves an empty piece\<close>
  "split_ws s =
     (let w = takeWhile (\<lambda>c. \<not> isWhiteSpace c) s;
          r = dropWhile (\<lambda>c. \<not> isWhiteSpace c) s
      in if r = [] then [w] else w # split_ws (dropWhile isWhiteSpace r))"
  by pat_completeness auto
termination
proof (relation "measure length")
  fix s w r
  assume r: "r = dropWhile (\<lambda>c. \<not> isWhiteSpace c) s" and ne: "r \<noteq> []"
  from ne obtain c cs where rc: "r = c # cs" by (cases r) auto
  have "length (dropWhile isWhiteSpace r) \<le> length cs"
    using rc r hd_dropWhile[of "\<lambda>c. \<not> isWhiteSpace c" s] ne
    by (auto intro: le_trans[OF length_dropWhile_le])
  moreover have "length r \<le> length s"
    unfolding r by (rule length_dropWhile_le)
  ultimately show "(dropWhile isWhiteSpace r, s) \<in> measure length"
    using rc by simp
qed simp

declare split_ws.simps [simp del]

fun digitsOf :: "nat \<Rightarrow> nat \<Rightarrow> string" where
  \<comment> \<open>the decimal digits of a number, most significant first; the first argument bounds the
      number of digits\<close>
  "digitsOf 0 n = []"
| "digitsOf (Suc k) n =
     (if n < 10 then [char_of (48 + n)] else digitsOf k (n div 10) @ [char_of (48 + n mod 10)])"

definition showNat :: "nat \<Rightarrow> string" where
  \<comment> \<open>a non-negative integer inside a template literal\<close>
  "showNat n = digitsOf (Suc n) n"

definition showInt :: "int \<Rightarrow> string" where
  \<comment> \<open>an integer inside a template literal, for integers below \<open>10^21\<close> in magnitude (from
      there on JavaScript prints the exponent form, which the model does not)\<close>
  "showInt i = (if i < 0 then CHR ''-'' # showNat (nat (- i)) else showNat (nat i))"

section \<open>Regular expressions\<close>

text \<open>
  The patterns of the source are kept as terms of a small regular-expression type and run by
  a backtracking matcher: \<open>rx_rests r s\<close> lists what is left of \<open>s\<close> after each way \<open>r\<close> can
  match a prefix of it, in the order in which a backtracking engine tries them (a greedy
  star tries one more round before it stops, an alternative tries its left side first), so
  the head of the list is the match the engine reports.
\<close>

datatype rx =
    Eps
  | In "char \<Rightarrow> bool"
  | Seq rx rx
  | Alt rx rx
  | Star rx

definition Ch :: "char \<Rightarrow> rx" where
  \<comment> \<open>one literal character\<close>
  "Ch c = In (\<lambda>x. x = c)"

definition ChI :: "char \<Rightarrow> rx" where
  \<comment> \<open>one literal character under the \<open>i\<close> flag\<close>
  "ChI c = In (\<lambda>x. lowerChar x = lowerChar c)"

definition NotIn :: "string \<Rightarrow> rx" where
  \<comment> \<open>a negated class \<open>[^...]\<close>\<close>
  "NotIn cs = In (\<lambda>x. x \<notin> set cs)"

definition OneOf :: "string \<Rightarrow> rx" where
  \<comment> \<open>a class \<open>[...]\<close>\<close>
  "OneOf cs = In (\<lambda>x. x \<in> set cs)"

definition Lit :: "string \<Rightarrow> rx" where
  "Lit s = foldr (\<lambda>c r. Seq (Ch c) r) s Eps"

definition LitI :: "string \<Rightarrow> rx" where
  "LitI s = foldr (\<lambda>c r. Seq (ChI c) r) s Eps"

definition Opt :: "rx \<Rightarrow> rx" where
  \<comment> \<open>\<open>r?\<close>\<close>
  "Opt r = Alt r Eps"

definition Plus :: "rx \<Rightarrow> rx" where
  \<comment> \<open>\<open>r+\<close>\<close>
  "Plus r = Seq r (Star r)"

fun seqs :: "rx list \<Rightarrow> rx" where
  "seqs [] = Eps"
| "seqs [r] = r"
| "seqs (r # rs) = Seq r (seqs rs)"

fun alts :: "rx list \<Rightarrow> rx" where
  "alts [] = In (\<lambda>x. False)"
| "alts [r] = r"
| "alts (r # rs) = Alt r (alts rs)"

function rx_rests :: "rx \<Rightarrow> string \<Rightarrow> string list" where
  "rx_rests Eps s = [s]"
| "rx_rests (In P) s = (case s of [] \<Rightarrow> [] | c # cs \<Rightarrow> if P c then [cs] else [])"
| "rx_rests (Seq a b) s = concat (map (rx_rests b) (rx_rests a s))"
| "rx_rests (Alt a b) s = rx_rests a s @ rx_rests b s"
| "rx_rests (Star a) s =
     concat (map (\<lambda>t. if length t < length s then rx_rests (Star a) t else []) (rx_rests a s)) @ [s]"
  by pat_completeness auto
termination
  by (relation "measures [\<lambda>(r, s). size r, \<lambda>(r, s). length s]") simp_all

declare rx_rests.simps [simp del]

definition rx_at :: "rx \<Rightarrow> string \<Rightarrow> bool" where
  \<comment> \<open>the pattern matches at the start of the string (a pattern that begins with \<open>^\<close>)\<close>
  "rx_at r s \<longleftrightarrow> rx_rests r s \<noteq> []"

definition rx_whole :: "rx \<Rightarrow> string \<Rightarrow> bool" where
  \<comment> \<open>the pattern matches the whole string (a pattern between \<open>^\<close> and \<open>$\<close>)\<close>
  "rx_whole r s \<longleftrightarrow> [] \<in> set (rx_rests r s)"

fun rx_test :: "rx \<Rightarrow> string \<Rightarrow> bool" where
  \<comment> \<open>\<open>regex.test(s)\<close> of a pattern without anchors: a match at some position\<close>
  "rx_test r [] = rx_at r []"
| "rx_test r (c # cs) = (rx_at r (c # cs) \<or> rx_test r cs)"

fun rx_exec :: "rx \<Rightarrow> string \<Rightarrow> string option" where
  \<comment> \<open>\<open>s.match(regex)\<close> without the \<open>g\<close> flag: the text of the leftmost match\<close>
  "rx_exec r [] = (case rx_rests r [] of [] \<Rightarrow> None | t # _ \<Rightarrow> Some [])"
| "rx_exec r (c # cs) =
     (case rx_rests r (c # cs) of
        [] \<Rightarrow> rx_exec r cs
      | t # _ \<Rightarrow> Some (take (length (c # cs) - length t) (c # cs)))"

function rx_matchAll :: "rx \<Rightarrow> string \<Rightarrow> string list" where
  \<comment> \<open>\<open>s.match(regex)\<close> with the \<open>g\<close> flag: the texts of the successive matches, each search
      starting where the last match ended (one further on after an empty match)\<close>
  "rx_matchAll r [] = (case rx_rests r [] of [] \<Rightarrow> [] | t # _ \<Rightarrow> [[]])"
| "rx_matchAll r (c # cs) =
     (case rx_rests r (c # cs) of
        [] \<Rightarrow> rx_matchAll r cs
      | t # _ \<Rightarrow>
          if length t < length (c # cs)
          then take (length (c # cs) - length t) (c # cs) # rx_matchAll r t
          else [] # rx_matchAll r cs)"
  by pat_completeness auto
termination
  by (relation "measure (\<lambda>(r, s). length s)") auto

function rx_replaceAll :: "rx \<Rightarrow> string \<Rightarrow> string \<Rightarrow> string" where
  \<comment> \<open>\<open>s.replace(regex, rep)\<close> with the \<open>g\<close> flag, for a replacement without \<open>$\<close> references\<close>
  "rx_replaceAll r rep [] = (case rx_rests r [] of [] \<Rightarrow> [] | t # _ \<Rightarrow> rep)"
| "rx_replaceAll r rep (c # cs) =
     (case rx_rests r (c # cs) of
        [] \<Rightarrow> c # rx_replaceAll r rep cs
      | t # _ \<Rightarrow>
          if length t < length (c # cs) then rep @ rx_replaceAll r rep t
          else rep @ c # rx_replaceAll r rep cs)"
  by pat_completeness auto
termination
  by (relation "measure (\<lambda>(r, rep, s). length s)") auto

fun upto_times :: "nat \<Rightarrow> rx \<Rightarrow> rx" where
  \<comment> \<open>\<open>r{0,n}\<close>, greedy\<close>
  "upto_times 0 r = Eps"
| "upto_times (Suc n) r = Opt (Seq r (upto_times n r))"

fun wordRunsFrom :: "string \<Rightarrow> string \<Rightarrow> string list" where
  \<comment> \<open>the maximal runs of word characters, in order; the first argument is the run being read\<close>
  "wordRunsFrom acc [] = (if acc = [] then [] else [acc])"
| "wordRunsFrom acc (c # cs) =
     (if isWordChar c then wordRunsFrom (acc @ [c]) cs
      else if acc = [] then wordRunsFrom [] cs
      else acc # wordRunsFrom [] cs)"

definition wordsOfAtLeast :: "nat \<Rightarrow> string \<Rightarrow> string list" where
  \<comment> \<open>\<open>s.match(/\b\w{n,}\b/g) || []\<close>: between two word boundaries \<open>\w{n,}\<close> can only match a
      whole maximal run of word characters\<close>
  "wordsOfAtLeast n s = filter (\<lambda>w. n \<le> length w) (wordRunsFrom [] s)"

definition backslash :: char where
  "backslash = CHR 0x5C"

definition newline :: char where
  "newline = CHR 0x0A"

section \<open>The index: data\<close>

text \<open>
  The transcript, as \<open>mmdIndex.ts\<close> declares it. The fields \<open>text\<close>, \<open>line\<close>, \<open>column\<close> of a
  line and \<open>page\<close>, \<open>lines\<close> of a page carry a prefix here; the optional \<open>region\<close> of a line
  is never read by the index and is left out. A JavaScript \<open>number\<close> that holds a page
  number is an \<^typ>\<open>int\<close>, a line index that the index itself produced is a \<^typ>\<open>nat\<close>.
\<close>

record MMDLine =
  l_text :: string
  l_line :: int
  l_column :: int

record MMDPage =
  image_id :: string
  p_page :: int
  p_lines :: "MMDLine list"

record MMDLinesData =
  pages :: "MMDPage list"

record chapterEntry =
  title :: string
  lineNum :: nat
  page :: int

record chapterHit = chapterEntry +
  hitContext :: string

record occurrence =
  o_lineNum :: nat
  o_text :: string
  o_page :: int
  o_context :: string

record documentStructure =
  ds_chapters :: "chapterEntry list"
  totalPages :: nat
  totalLines :: nat

record MMDIndexServer =
  linesData :: "MMDLinesData option"
  textToLinesMap :: "string \<rightharpoonup> nat list"
  lineTexts :: "string list"
  chapters :: "chapterEntry list"
  loaded :: bool

definition newIndex :: MMDIndexServer where
  \<comment> \<open>the field initialisers of the class\<close>
  "newIndex =
     \<lparr>linesData = None, textToLinesMap = Map.empty, lineTexts = [], chapters = [], loaded = False\<rparr>"

section \<open>The index: build\<close>

definition punctuationOnly :: "string \<Rightarrow> bool" where
  \<comment> \<open>\<open>/^[\\{}[\](),.;:!?'"]+$/.test(w)\<close>\<close>
  "punctuationOnly w \<longleftrightarrow>
     rx_whole (Plus (OneOf ([backslash, CHR 0x7B, CHR 0x7D, CHR 0x5B, CHR 0x5D, CHR 0x28, CHR 0x29,
                             CHR 0x2C, CHR 0x2E, CHR 0x3B, CHR 0x3A, CHR 0x21, CHR 0x3F, CHR 0x27,
                             CHR 0x22]))) w"

definition indexFullText :: "string \<Rightarrow> nat \<Rightarrow> (string \<rightharpoonup> nat list) \<Rightarrow> (string \<rightharpoonup> nat list)" where
  \<comment> \<open>lines 102 to 108: the full normalised text of a line as a key, at most 50 line numbers\<close>
  "indexFullText normalizedText n m =
     (let m' = (if m normalizedText = None then m(normalizedText \<mapsto> []) else m);
          existing = (case m' normalizedText of Some e \<Rightarrow> e | None \<Rightarrow> [])
      in if length existing < 50 then m'(normalizedText \<mapsto> existing @ [n]) else m')"

definition indexWord :: "string \<Rightarrow> nat \<Rightarrow> (string \<rightharpoonup> nat list) \<Rightarrow> (string \<rightharpoonup> nat list)" where
  \<comment> \<open>lines 118 to 124: a word of the line as a key, at most 100 line numbers, each once\<close>
  "indexWord word n m =
     (let m' = (if m word = None then m(word \<mapsto> []) else m);
          wordOccurrences = (case m' word of Some e \<Rightarrow> e | None \<Rightarrow> [])
      in if n \<notin> set wordOccurrences \<and> length wordOccurrences < 100
         then m'(word \<mapsto> wordOccurrences @ [n]) else m')"

definition significantWords :: "string \<Rightarrow> string list" where
  \<comment> \<open>lines 112 to 115\<close>
  "significantWords normalizedText =
     take 10 (filter (\<lambda>w. length w > 3 \<and> \<not> punctuationOnly w) (split_ws normalizedText))"

definition sectionOpen :: "rx" where
  \<comment> \<open>\<open>\\section\*?\{\<close>, case-sensitive\<close>
  "sectionOpen = seqs [Lit (backslash # ''section''), Opt (Ch CHR ''*''), Ch CHR 0x7B]"

definition sectionOpenI :: "rx" where
  \<comment> \<open>\<open>\\section\*?\{\<close> under the \<open>i\<close> flag\<close>
  "sectionOpenI = seqs [LitI (backslash # ''section''), Opt (ChI CHR ''*''), ChI CHR 0x7B]"

definition isChapter :: "string \<Rightarrow> bool" where
  \<comment> \<open>lines 132 to 138, the six patterns in the order of the source\<close>
  "isChapter text \<longleftrightarrow>
     rx_test (seqs [sectionOpenI, Star (NotIn [CHR 0x7D]), LitI ''Chapter'']) text \<or>
     rx_test (seqs [LitI (backslash # ''chapter''), Opt (ChI CHR ''*''), ChI CHR 0x7B]) text \<or>
     rx_at sectionOpenI text \<or>
     rx_test (seqs [LitI ''Chapter'', Plus (In isWhiteSpace), Plus (In isDigit),
                    Star (NotIn [CHR 0x7D]), ChI CHR 0x7D]) text \<or>
     rx_at (seqs [Ch CHR ''#'', upto_times 5 (Ch CHR ''#''), Plus (In isWhiteSpace),
                  LitI ''Chapter'']) text \<or>
     rx_test (seqs [Lit (backslash # ''section''), Ch CHR ''*'', Ch CHR 0x7B, Lit ''Chapter'',
                    Plus (In isWhiteSpace), Plus (In isDigit)]) text"

definition chapterTitle :: "string \<Rightarrow> string" where
  \<comment> \<open>lines 142 to 149: the markup wrappers removed, trimmed, cut to 150 characters, line
      feeds turned into spaces; the raw text cut to 150 characters when nothing is left\<close>
  "chapterTitle text =
     (let t1 = rx_replaceAll (Ch CHR 0x7D) [] (rx_replaceAll sectionOpen [] text);
          t2 = rx_replaceAll (seqs [Lit (backslash # ''title''), Ch CHR 0x7B]) []
                 (rx_replaceAll (seqs [Lit (backslash # ''chapter''), Opt (Ch CHR ''*''), Ch CHR 0x7B]) [] t1);
          t3 = rx_replaceAll (Ch newline) '' '' (substring (trim t2) 0 150)
      in if t3 = [] then substring text 0 150 else t3)"

definition indexLine :: "int \<Rightarrow> MMDIndexServer \<Rightarrow> MMDLine \<Rightarrow> MMDIndexServer" where
  \<comment> \<open>the body of the inner loop, lines 93 to 154, for one line of the page numbered \<open>pg\<close>\<close>
  "indexLine pg st ln =
     (let lineNum = length (lineTexts st);
          lineText = l_text ln;
          st1 = st\<lparr>lineTexts := lineTexts st @ [lineText]\<rparr>;
          normalizedText = toLowerCase (trim lineText);
          st2 = (if normalizedText \<noteq> [] \<and> length normalizedText > 2
                 then (let m1 = (if length normalizedText < 200
                                 then indexFullText normalizedText lineNum (textToLinesMap st1)
                                 else textToLinesMap st1);
                           m2 = foldl (\<lambda>m word. indexWord word lineNum m) m1
                                  (significantWords normalizedText)
                       in st1\<lparr>textToLinesMap := m2\<rparr>)
                 else st1);
          text = trim lineText
      in if length text > 5 \<and> isChapter text
         then st2\<lparr>chapters := chapters st2 @
                  [\<lparr>title = chapterTitle text, lineNum = lineNum, page = pg\<rparr>]\<rparr>
         else st2)"

definition indexPage :: "MMDIndexServer \<Rightarrow> MMDPage \<Rightarrow> MMDIndexServer" where
  "indexPage st pg = foldl (indexLine (p_page pg)) st (p_lines pg)"

definition buildIndex :: "MMDIndexServer \<Rightarrow> MMDIndexServer" where
  \<comment> \<open>lines 83 to 160; the final sort is stable\<close>
  "buildIndex st =
     (case linesData st of
        None \<Rightarrow> st
      | Some d \<Rightarrow>
          (let st' = foldl indexPage
                       (st\<lparr>lineTexts := [], textToLinesMap := Map.empty, chapters := []\<rparr>) (pages d)
           in st'\<lparr>chapters := sort_key lineNum (chapters st')\<rparr>))"

datatype fileOutcome =
    NotFound
  | Failed
  | Parsed "MMDLinesData option"

definition load :: "fileOutcome \<Rightarrow> MMDIndexServer \<Rightarrow> MMDIndexServer" where
  \<comment> \<open>lines 44 to 81. What the file system and \<open>JSON.parse\<close> give is the first argument: no
      file at any of the three paths, an exception while reading or parsing, or a parsed
      value (\<open>None\<close> for the JSON value \<open>null\<close>)\<close>
  "load f st =
     (if loaded st then st
      else case f of
             NotFound \<Rightarrow> st
           | Failed \<Rightarrow> st\<lparr>loaded := False\<rparr>
           | Parsed d \<Rightarrow> (buildIndex (st\<lparr>linesData := d\<rparr>))\<lparr>loaded := True\<rparr>)"

definition isLoaded :: "MMDIndexServer \<Rightarrow> bool" where
  "isLoaded st = loaded st"

section \<open>The index: queries\<close>

definition setAdd :: "nat \<Rightarrow> nat list \<Rightarrow> nat list" where
  \<comment> \<open>\<open>results.add(n)\<close> on a \<open>Set\<close> of numbers, kept in insertion order\<close>
  "setAdd n xs = (if n \<in> set xs then xs else xs @ [n])"

definition addAll :: "nat list \<Rightarrow> nat list \<Rightarrow> nat list" where
  \<comment> \<open>\<open>ns.forEach((line) => results.add(line))\<close>\<close>
  "addAll results ns = foldl (\<lambda>r n. setAdd n r) results ns"

definition findTextLines :: "MMDIndexServer \<Rightarrow> string \<Rightarrow> nat list" where
  \<comment> \<open>lines 163 to 192\<close>
  "findTextLines st text =
     (if \<not> loaded st \<or> linesData st = None then []
      else
        (let normalized = toLowerCase (trim text);
             results1 = (case textToLinesMap st normalized of
                           Some exactMatch \<Rightarrow> addAll [] exactMatch
                         | None \<Rightarrow> []);
             words = filter (\<lambda>w. length w > 2) (split_ws normalized);
             results2 = foldl (\<lambda>r word. case textToLinesMap st word of
                                             Some wordMatches \<Rightarrow> addAll r wordMatches
                                           | None \<Rightarrow> r) results1 words;
             results3 = foldl (\<lambda>r i. if str_includes (toLowerCase (lineTexts st ! i)) normalized
                                        then setAdd i r else r)
                          results2 [0 ..< length (lineTexts st)]
         in sort results3))"

definition getContextAroundLines :: "MMDIndexServer \<Rightarrow> nat list \<Rightarrow> nat \<Rightarrow> string" where
  \<comment> \<open>lines 195 to 211; every index read from \<open>lineTexts\<close> is below its length\<close>
  "getContextAroundLines st lineNums contextLines =
     (if \<not> loaded st \<or> linesData st = None \<or> lineNums = [] then []
      else
        (let allContextLines =
               foldl (\<lambda>acc n.
                        (let start = nat (max 0 (int n - int contextLines));
                             end = min (length (lineTexts st)) (n + contextLines + 1)
                         in addAll acc [start ..< end]))
                     [] (take 10 lineNums);
             sortedLines = sort allContextLines
         in concat (map (\<lambda>n. lineTexts st ! n) sortedLines)))"

definition withContext :: "MMDIndexServer \<Rightarrow> chapterEntry \<Rightarrow> chapterHit" where
  \<comment> \<open>\<open>{ ...chapter, context }\<close> with the context of 20 lines around the heading\<close>
  "withContext st c =
     \<lparr>title = title c, lineNum = lineNum c, page = page c,
      hitContext = getContextAroundLines st [lineNum c] 20\<rparr>"

definition firstNumber :: "string \<Rightarrow> string option" where
  \<comment> \<open>\<open>query.match(/(\d+)/)\<close>, the captured digits\<close>
  "firstNumber query = rx_exec (Plus (In isDigit)) query"

definition findChapter :: "MMDIndexServer \<Rightarrow> string \<Rightarrow> chapterHit list" where
  \<comment> \<open>lines 214 to 251\<close>
  "findChapter st query =
     (if \<not> loaded st \<or> linesData st = None then []
      else
        (let normalizedQuery = toLowerCase query;
             results1 =
               foldl (\<lambda>results c.
                        if str_includes (toLowerCase (title c)) normalizedQuery \<or>
                           str_includes normalizedQuery (substring (toLowerCase (title c)) 0 20)
                        then results @ [withContext st c] else results)
                     [] (chapters st)
         in case firstNumber query of
              None \<Rightarrow> results1
            | Some num \<Rightarrow>
                foldl (\<lambda>results c.
                         if str_includes (title c) (''Chapter '' @ num) \<or>
                            str_includes (title c) (''chapter '' @ num)
                         then (if \<not> list_ex (\<lambda>r. lineNum r = lineNum c) results
                               then results @ [withContext st c] else results)
                         else results)
                      results1 (chapters st)))"

definition getDocumentStructure :: "MMDIndexServer \<Rightarrow> documentStructure" where
  \<comment> \<open>lines 254 to 268\<close>
  "getDocumentStructure st =
     (case linesData st of
        None \<Rightarrow> \<lparr>ds_chapters = [], totalPages = 0, totalLines = 0\<rparr>
      | Some d \<Rightarrow>
          if \<not> loaded st then \<lparr>ds_chapters = [], totalPages = 0, totalLines = 0\<rparr>
          else \<lparr>ds_chapters = chapters st, totalPages = length (pages d),
                totalLines = length (lineTexts st)\<rparr>)"

fun pageOfLine :: "MMDPage list \<Rightarrow> int \<Rightarrow> int \<Rightarrow> int option" where
  \<comment> \<open>the loop of lines 307 to 314; the second argument is \<open>currentLine\<close>; \<open>None\<close> when the
      loop ends without returning\<close>
  "pageOfLine [] currentLine n = None"
| "pageOfLine (p # ps) currentLine n =
     (let pageLineCount = int (length (p_lines p))
      in if n < currentLine + pageLineCount then Some (p_page p)
         else pageOfLine ps (currentLine + pageLineCount) n)"

definition getPageForLine :: "MMDIndexServer \<Rightarrow> int \<Rightarrow> int" where
  \<comment> \<open>lines 304 to 316. In the last line \<open>?.\<close> gives \<open>undefined\<close> when there is no page, and
      \<open>|| 1\<close> replaces every falsy value by 1: \<open>undefined\<close>, and the number 0\<close>
  "getPageForLine st n =
     (case linesData st of
        None \<Rightarrow> 1
      | Some d \<Rightarrow>
          if \<not> loaded st then 1
          else (case pageOfLine (pages d) 0 n of
                  Some pg \<Rightarrow> pg
                | None \<Rightarrow>
                    (if pages d = [] then 1
                     else if p_page (last (pages d)) = 0 then 1
                     else p_page (last (pages d)))))"

definition sliceTo :: "'a list \<Rightarrow> int \<Rightarrow> 'a list" where
  \<comment> \<open>\<open>xs.slice(0, k)\<close>: a negative \<open>k\<close> counts from the end\<close>
  "sliceTo xs k = (if k < 0 then take (nat (int (length xs) + k)) xs else take (nat k) xs)"

definition findAllOccurrencesWithContext :: "MMDIndexServer \<Rightarrow> string \<Rightarrow> int \<Rightarrow> occurrence list" where
  \<comment> \<open>lines 271 to 301\<close>
  "findAllOccurrencesWithContext st text maxResults =
     (if \<not> loaded st \<or> linesData st = None \<or> trim text = [] then []
      else
        (let searchText = toLowerCase (substring (trim text) 0 200);
             lineNums = findTextLines st searchText;
             uniqueLineNums = sliceTo (addAll [] lineNums) maxResults
         in foldl (\<lambda>results n.
                     if n < length (lineTexts st)
                     then results @
                            [\<lparr>o_lineNum = n,
                              o_text = substring (lineTexts st ! n) 0 200,
                              o_page = getPageForLine st (int n),
                              o_context = substring (getContextAroundLines st [n] 8) 0 1000\<rparr>]
                     else results)
                  [] uniqueLineNums))"

definition chapterNumber :: "string \<Rightarrow> string option" where
  \<comment> \<open>\<open>request.match(/chapter\s+(\d+)/i)\<close>, the captured digits: what follows the seven
      letters and the white space in the text of the match\<close>
  "chapterNumber request =
     (case rx_exec (seqs [LitI ''chapter'', Plus (In isWhiteSpace), Plus (In isDigit)]) request of
        None \<Rightarrow> None
      | Some m \<Rightarrow> Some (dropWhile isWhiteSpace (drop 7 m)))"

definition warningSign :: string where
  \<comment> \<open>the warning sign of line 355 is the two code units U+26A0 U+FE0F, which a \<^typ>\<open>char\<close>
      cannot hold; two substitute characters stand for them and keep every length\<close>
  "warningSign = [CHR 0x1A, CHR 0x1A]"

definition getEnhancedContext :: "MMDIndexServer \<Rightarrow> string \<Rightarrow> string option \<Rightarrow> string \<Rightarrow> string" where
  \<comment> \<open>lines 323 to 387; \<open>e1\<close>, \<open>e2\<close>, \<open>e3\<close> are \<open>enhancedInfo\<close> after each of the three
      blocks (in the first block \<open>enhancedInfo\<close> is still empty, so its test against
      \<open>maxInfoLength\<close> holds). No operation of the model raises, so the \<open>catch\<close> branch has no
      counterpart\<close>
  "getEnhancedContext st markdown selectedText request =
     (if \<not> loaded st then []
      else
        (let maxInfoLength = (1500::nat);
             e1 = (case chapterNumber request of
                     None \<Rightarrow> []
                   | Some chapterNum \<Rightarrow>
                       (let chs = findChapter st (''Chapter '' @ chapterNum)
                        in if chs \<noteq> []
                           then [newline, newline] @ ''[Document Structure] Found '' @
                                showNat (length chs) @ '' occurrence(s) of Chapter '' @
                                chapterNum @ '':'' @ [newline] @
                                concat (map (\<lambda>c. ''- Page '' @ showInt (page c) @ '', Line '' @
                                                 showNat (lineNum c) @ '': '' @
                                                 substring (title c) 0 60 @ [newline])
                                            (take 5 chs)) @
                                (if length chs > 5
                                 then ''... and '' @ showNat (length chs - 5) @
                                      '' more occurrence(s)'' @ [newline]
                                 else [])
                           else []));
             e2 = (case selectedText of
                     None \<Rightarrow> e1
                   | Some sel \<Rightarrow>
                       if sel \<noteq> [] \<and> length (trim sel) < 500
                       then (let occurrences = findAllOccurrencesWithContext st sel 3
                             in if occurrences \<noteq> [] \<and> length e1 < maxInfoLength
                                then e1 @ [newline, newline] @ ''[Selected Text Location] Found at:'' @
                                     [newline] @
                                     concat (map (\<lambda>occ. ''- Page '' @ showInt (o_page occ) @
                                                        '', Line '' @ showNat (o_lineNum occ) @
                                                        [newline])
                                                 occurrences) @
                                     (if length occurrences > 1
                                      then warningSign @ '' IMPORTANT: This text appears '' @
                                           showNat (length occurrences) @
                                           '' times. Update ALL occurrences.'' @ [newline]
                                      else [])
                                else e1)
                       else e1);
             e3 = (if length e2 < maxInfoLength
                   then (let keywords = take 2 (wordsOfAtLeast 5 request);
                             relevantInfo =
                               foldl (\<lambda>info keyword.
                                        if length info \<ge> 2 then info
                                        else (let matches = findTextLines st keyword
                                              in if matches \<noteq> [] \<and> length matches < 30
                                                 then (let ctx = getContextAroundLines st (take 2 matches) 3
                                                       in if ctx \<noteq> [] \<and> length ctx < 300
                                                          then info @ [keyword @ '': '' @
                                                                       substring ctx 0 150 @ ''...'']
                                                          else info)
                                                 else info))
                                     [] keywords
                         in if relevantInfo \<noteq> [] \<and>
                               length e2 + length (join [newline] relevantInfo) < maxInfoLength
                            then e2 @ [newline, newline] @ ''[Related Content]'' @ [newline] @
                                 join [newline, newline] relevantInfo
                            else e2)
                   else e2)
         in substring e3 0 (int maxInfoLength)))"

section \<open>The client-side index\<close>

text \<open>
  The class \<open>MMDIndex\<close> of the page component keeps the transcript and the \<open>loaded\<close> flag
  like the server-side index; \<open>findAllOccurrences\<close> reads these two fields only.
\<close>

record MMDIndex =
  c_linesData :: "MMDLinesData option"
  c_loaded :: bool

record lineHit =
  h_lineNum :: nat
  h_text :: string
  h_page :: int

definition regexSpecials :: string where
  \<comment> \<open>the characters of the class \<open>[.*+?^${}()|[\]\\]\<close>\<close>
  "regexSpecials =
     [CHR ''.'', CHR ''*'', CHR ''+'', CHR ''?'', CHR ''^'', CHR ''$'', CHR 0x7B, CHR 0x7D,
      CHR ''('', CHR '')'', CHR ''|'', CHR ''['', CHR '']'', backslash]"

definition escapeRegExp :: "string \<Rightarrow> string" where
  \<comment> \<open>\<open>s.replace(/[.*+?^${}()|[\]\\]/g, "\\$&")\<close>: a backslash before every special
      character\<close>
  "escapeRegExp s = concat (map (\<lambda>c. if c \<in> set regexSpecials then [backslash, c] else [c]) s)"

datatype compiled =
    Pattern rx
  | SyntaxError
  | Unsupported

definition anyChar :: rx where
  \<comment> \<open>the dot: every character but a line terminator\<close>
  "anyChar = In (\<lambda>x. x \<noteq> newline \<and> x \<noteq> CHR 0x0D)"

fun compileI :: "string \<Rightarrow> compiled" where
  \<comment> \<open>\<open>new RegExp(source, flags)\<close> with the \<open>i\<close> flag, for the sources that are a sequence of
      plain characters, escaped special characters and dots. A backslash at the end of the
      source is a syntax error and raises; every other source is outside what the model
      compiles\<close>
  "compileI [] = Pattern Eps"
| "compileI (c # cs) =
     (if c = backslash
      then (case cs of
              [] \<Rightarrow> SyntaxError
            | e # es \<Rightarrow>
                if e \<in> set regexSpecials
                then (case compileI es of Pattern r \<Rightarrow> Pattern (Seq (ChI e) r) | other \<Rightarrow> other)
                else Unsupported)
      else if c = CHR ''.''
      then (case compileI cs of Pattern r \<Rightarrow> Pattern (Seq anyChar r) | other \<Rightarrow> other)
      else if c \<in> set regexSpecials then Unsupported
      else (case compileI cs of Pattern r \<Rightarrow> Pattern (Seq (ChI c) r) | other \<Rightarrow> other))"

fun scanLines :: "rx \<Rightarrow> int \<Rightarrow> nat \<Rightarrow> MMDLine list \<Rightarrow> lineHit list" where
  \<comment> \<open>the inner loop of \<open>findAllOccurrences\<close> over the lines of the page numbered \<open>pg\<close>, the
      first of which has the index \<open>n\<close>\<close>
  "scanLines regex pg n [] = []"
| "scanLines regex pg n (ln # lns) =
     (if rx_test regex (l_text ln)
      then \<lparr>h_lineNum = n, h_text = l_text ln, h_page = pg\<rparr> # scanLines regex pg (Suc n) lns
      else scanLines regex pg (Suc n) lns)"

fun scanPages :: "rx \<Rightarrow> nat \<Rightarrow> MMDPage list \<Rightarrow> lineHit list" where
  "scanPages regex n [] = []"
| "scanPages regex n (p # ps) =
     scanLines regex (p_page p) n (p_lines p) @ scanPages regex (n + length (p_lines p)) ps"

definition findAllOccurrences :: "MMDIndex \<Rightarrow> string \<Rightarrow> compiled + lineHit list" where
  \<comment> \<open>\<open>MMDIndex.findAllOccurrences(pattern)\<close>: the pattern goes to \<open>new RegExp\<close> as it is.
      \<open>Inl\<close> when the pattern does not compile: the exception of \<open>new RegExp\<close>, which the
      method does not catch, or a pattern outside what the model compiles\<close>
  "findAllOccurrences ix pattern =
     (case c_linesData ix of
        None \<Rightarrow> Inr []
      | Some d \<Rightarrow>
          if \<not> c_loaded ix then Inr []
          else (case compileI pattern of
                  Pattern regex \<Rightarrow> Inr (scanPages regex 0 (pages d))
                | other \<Rightarrow> Inl other))"

section \<open>Products in double precision\<close>

text \<open>
  The source multiplies the budget by the literals \<open>0.7\<close> and \<open>0.3\<close>. These are the doubles
  \<open>6305039478318694 / 2^53\<close> and \<open>5404319552844595 / 2^54\<close>, and the product of a double
  \<open>m / 2^e\<close> with an integer \<open>b\<close> is the exact product rounded to the nearest number with a
  mantissa of 53 bits, a tie going to the even mantissa. \<open>timesDouble m b\<close> is the numerator
  of that double over \<open>2^e\<close>. The budget is an integer of magnitude at most \<open>2^53\<close>.
\<close>

function bitLength :: "int \<Rightarrow> nat" where
  \<comment> \<open>the number of binary digits of a positive integer\<close>
  "bitLength n = (if n \<le> 0 then 0 else Suc (bitLength (n div 2)))"
  by pat_completeness auto
termination
  by (relation "measure nat") auto

declare bitLength.simps [simp del]

definition roundToMantissa :: "int \<Rightarrow> int" where
  \<comment> \<open>the nearest integer with at most 53 significant binary digits, ties to even; for a
      non-negative argument\<close>
  "roundToMantissa n =
     (let shift = bitLength n - 53;
          q = n div 2 ^ shift;
          r = n mod 2 ^ shift;
          q' = (if 2 * r > 2 ^ shift \<or> (2 * r = 2 ^ shift \<and> odd q) then q + 1 else q)
      in q' * 2 ^ shift)"

definition timesDouble :: "int \<Rightarrow> int \<Rightarrow> int" where
  "timesDouble m b = (if b < 0 then - roundToMantissa (- b * m) else roundToMantissa (b * m))"

definition floorOf70Percent :: "int \<Rightarrow> int" where
  \<comment> \<open>\<open>Math.floor(maxChars * 0.7)\<close>\<close>
  "floorOf70Percent maxChars = timesDouble 6305039478318694 maxChars div 2 ^ 53"

definition floorOf30Percent :: "int \<Rightarrow> int" where
  \<comment> \<open>\<open>Math.floor(maxChars * 0.3)\<close>\<close>
  "floorOf30Percent maxChars = timesDouble 5404319552844595 maxChars div 2 ^ 54"

definition exceeds70Percent :: "nat \<Rightarrow> int \<Rightarrow> bool" where
  \<comment> \<open>\<open>len > maxChars * 0.7\<close>\<close>
  "exceeds70Percent len maxChars \<longleftrightarrow>
     int len * 2 ^ 53 > timesDouble 6305039478318694 maxChars"

section \<open>The context assembler\<close>

datatype intentKind = Math | Table | Chapter | Formatting | General

record intentResult =
  i_keywords :: "string list"
  i_intent :: intentKind
  i_mentions :: "string list"

definition commonWords :: "string list" where
  "commonWords =
     [''the'', ''and'', ''for'', ''are'', ''but'', ''not'', ''you'', ''all'', ''can'', ''her'',
      ''was'', ''one'', ''our'', ''out'', ''day'', ''get'', ''has'', ''him'', ''his'', ''how'',
      ''its'', ''may'', ''new'', ''now'', ''old'', ''see'', ''two'', ''way'', ''who'', ''boy'',
      ''did'', ''its'', ''let'', ''put'', ''say'', ''she'', ''too'', ''use'']"

definition quotes :: string where
  "quotes = [CHR 0x22, CHR 0x27]"

definition hasWord :: "string list \<Rightarrow> string \<Rightarrow> bool" where
  \<comment> \<open>\<open>/\b(w1|w2|...)\b/i.test(request)\<close> for alternatives made of letters: between two word
      boundaries such an alternative can only match a whole maximal run of word characters\<close>
  "hasWord ws request \<longleftrightarrow> list_ex (\<lambda>w. toLowerCase w \<in> set ws) (wordRunsFrom [] request)"

definition sectionNumber :: "string \<Rightarrow> string option" where
  \<comment> \<open>\<open>request.match(/section\s+(\d+)/i)\<close>, the captured digits\<close>
  "sectionNumber request =
     (case rx_exec (seqs [LitI ''section'', Plus (In isWhiteSpace), Plus (In isDigit)]) request of
        None \<Rightarrow> None
      | Some m \<Rightarrow> Some (dropWhile isWhiteSpace (drop 7 m)))"

definition extractIntent :: "string \<Rightarrow> intentResult" where
  \<comment> \<open>\<open>route.ts\<close>, lines 21 to 66\<close>
  "extractIntent request =
     (let lowerRequest = toLowerCase request;
          words = wordsOfAtLeast 3 lowerRequest;
          keywords = filter (\<lambda>word. word \<notin> set commonWords \<and> length word \<ge> 3) words;
          intent =
            (if hasWord [''math'', ''equation'', ''formula'', ''solve'', ''calculate'', ''compute'',
                         ''latex'', ''tex''] request then Math
             else if hasWord [''table'', ''row'', ''column'', ''cell'', ''header''] request then Table
             else if hasWord [''chapter'', ''section'', ''heading'', ''title''] request then Chapter
             else if hasWord [''format'', ''style'', ''bold'', ''italic'', ''underline'', ''font'']
                       request then Formatting
             else General);
          quoted = rx_matchAll (seqs [OneOf quotes, Plus (NotIn quotes), OneOf quotes]) request;
          mentions1 = map (rx_replaceAll (OneOf quotes) []) quoted;
          mentions2 = (case chapterNumber request of
                         Some n \<Rightarrow> mentions1 @ [''Chapter '' @ n]
                       | None \<Rightarrow> mentions1);
          mentions3 = (case sectionNumber request of
                         Some n \<Rightarrow> mentions2 @ [''Section '' @ n]
                       | None \<Rightarrow> mentions2)
      in \<lparr>i_keywords = keywords, i_intent = intent, i_mentions = mentions3\<rparr>)"

function rx_splitFrom :: "rx \<Rightarrow> string \<Rightarrow> string \<Rightarrow> string list" where
  \<comment> \<open>\<open>s.split(regex)\<close> for a separator that matches no empty string; the second argument is
      the piece being read\<close>
  "rx_splitFrom r acc [] = [acc]"
| "rx_splitFrom r acc (c # cs) =
     (case rx_rests r (c # cs) of
        [] \<Rightarrow> rx_splitFrom r (acc @ [c]) cs
      | t # _ \<Rightarrow>
          if length t < length (c # cs) then acc # rx_splitFrom r [] t
          else rx_splitFrom r (acc @ [c]) cs)"
  by pat_completeness auto
termination
  by (relation "measure (\<lambda>(r, acc, s). length s)") auto

record scoredSection =
  s_text :: string
  s_score :: nat
  s_index :: nat

definition blockSeparator :: string where
  "blockSeparator = [newline, newline]"

definition keywordScore :: "string \<Rightarrow> string \<Rightarrow> compiled + nat" where
  \<comment> \<open>lines 81 to 85 for one keyword: the number of matches of the escaped keyword, compiled
      with the flags \<open>gi\<close>, in the block\<close>
  "keywordScore block keyword =
     (case compileI (escapeRegExp keyword) of
        Pattern regex \<Rightarrow> Inr (length (rx_matchAll regex block))
      | other \<Rightarrow> Inl other)"

definition blockScore :: "string \<Rightarrow> string list \<Rightarrow> nat" where
  \<comment> \<open>the loop of lines 80 to 86; the escaped keyword always compiles
      (\<open>compileI_escapeRegExp\<close>), so the other branch adds nothing\<close>
  "blockScore block kws =
     foldl (\<lambda>score keyword. case keywordScore block keyword of
                               Inr n \<Rightarrow> score + n
                             | Inl _ \<Rightarrow> score) 0 kws"

definition findRelevantSections :: "string \<Rightarrow> string list \<Rightarrow> int \<Rightarrow> string list" where
  \<comment> \<open>\<open>route.ts\<close>, lines 69 to 105; \<open>Array.prototype.sort\<close> is stable\<close>
  "findRelevantSections markdown kws maxResults =
     (let blocks = rx_splitFrom (seqs [Ch newline, Plus (Ch newline)]) [] markdown;
          sections =
            foldl (\<lambda>sections i.
                     (let block = toLowerCase (blocks ! i);
                          score = blockScore block kws
                      in if score > 0
                         then (let start = nat (max 0 (int i - 1));
                                   end = min (length blocks) (i + 2);
                                   ctx = join blockSeparator (take (end - start) (drop start blocks))
                               in sections @ [\<lparr>s_text = ctx, s_score = score, s_index = i\<rparr>])
                         else sections))
                  [] [0 ..< length blocks];
          sorted = sort_key (\<lambda>s. - int (s_score s)) sections
      in map s_text (sliceTo sorted maxResults))"

definition locationChangeMarker :: string where
  "locationChangeMarker = [newline, newline] @ ''[... location change ...]'' @ [newline, newline]"

definition ellipsisMarker :: string where
  "ellipsisMarker = [newline, newline] @ ''[...]'' @ [newline, newline]"

definition chapterOccurrenceMarker :: string where
  "chapterOccurrenceMarker =
     [newline, newline] @ ''[... chapter occurrence ...]'' @ [newline, newline]"

definition continuesMarker :: string where
  "continuesMarker = [newline, newline] @ ''[... document continues ...]'' @ [newline, newline]"

definition truncatedMarker :: string where
  "truncatedMarker = [newline] @ ''[... truncated ...]''"

definition around :: "string \<Rightarrow> nat \<Rightarrow> nat \<Rightarrow> int \<Rightarrow> string" where
  \<comment> \<open>\<open>markdown.substring(Math.max(0, index - radius),
      Math.min(markdown.length, index + len + radius))\<close>\<close>
  "around markdown index len radius =
     substring markdown (max 0 (int index - radius))
       (min (int (length markdown)) (int index + int len + radius))"

definition selectionContext :: "MMDIndexServer \<Rightarrow> string \<Rightarrow> string \<Rightarrow> string \<Rightarrow> string \<times> string" where
  \<comment> \<open>lines 131 to 160, the branch of a non-empty selection: the context, and
      \<open>enhancedInfo\<close> with what the branch appends to it\<close>
  "selectionContext st markdown selectedText enhancedInfo =
     (let (context, info) =
            (if isLoaded st
             then (let occurrences = findAllOccurrencesWithContext st selectedText 3
                   in if occurrences \<noteq> []
                      then (join locationChangeMarker (map o_context occurrences),
                            if length occurrences > 1
                            then enhancedInfo @ [newline, newline] @
                                 ''IMPORTANT: The selected text appears '' @
                                 showNat (length occurrences) @
                                 '' times in the document. Make sure to update ALL occurrences if needed.''
                            else enhancedInfo)
                      else ([], enhancedInfo))
             else ([], enhancedInfo))
      in if context = []
         then (case indexOf markdown selectedText of
                 Some selectedIndex \<Rightarrow>
                   (around markdown selectedIndex (length selectedText) 5000, info)
               | None \<Rightarrow> (context, info))
         else (context, info))"

definition mentionsContext :: "string \<Rightarrow> string list \<Rightarrow> int \<Rightarrow> string" where
  \<comment> \<open>lines 165 to 178; the flag is set by the \<open>break\<close>\<close>
  "mentionsContext markdown ms maxChars =
     fst (foldl (\<lambda>(context, stop) mention.
                   if stop then (context, stop)
                   else (case indexOf markdown mention of
                           None \<Rightarrow> (context, False)
                         | Some mentionIndex \<Rightarrow>
                             (let mentionContext = around markdown mentionIndex (length mention) 3000
                              in if mentionContext \<noteq> []
                                 then (let context' = context @
                                                       (if context \<noteq> [] then ellipsisMarker else []) @
                                                       mentionContext
                                       in (context', exceeds70Percent (length context') maxChars))
                                 else (context, False))))
                ([], False) ms)"

definition chapterContext :: "MMDIndexServer \<Rightarrow> string \<Rightarrow> string \<times> string \<Rightarrow> string \<times> string" where
  \<comment> \<open>lines 181 to 204\<close>
  "chapterContext st request ci =
     (let (context, enhancedInfo) = ci
      in if context = [] \<or> length context < 1000
         then (case chapterNumber request of
                 None \<Rightarrow> ci
               | Some chapterNum \<Rightarrow>
                   if isLoaded st
                   then (let chs = findChapter st (''Chapter '' @ chapterNum)
                         in if chs \<noteq> []
                            then ((if context \<noteq> [] then context @ ellipsisMarker else []) @
                                    join chapterOccurrenceMarker (map hitContext chs),
                                  enhancedInfo @ [newline, newline] @ ''Found Chapter '' @
                                    chapterNum @ '' at '' @ showNat (length chs) @
                                    '' location(s) in the document.'')
                            else ci)
                   else ci)
         else ci)"

definition keywordContext :: "string \<Rightarrow> string list \<Rightarrow> string \<Rightarrow> string" where
  \<comment> \<open>lines 207 to 214\<close>
  "keywordContext markdown kws context =
     (if context = [] \<or> length context < 1000
      then (if kws \<noteq> []
            then (let relevantSections = findRelevantSections markdown kws 3
                  in if relevantSections \<noteq> [] then join ellipsisMarker relevantSections
                     else context)
            else context)
      else context)"

definition looksLikeRename :: "string \<Rightarrow> bool" where
  \<comment> \<open>line 218: \<open>request.match(/(?:change|update|edit).*(?:chapter|section|title).*(?:to|as)\s+["']?([^"']+)["']?/i)\<close>
      is not null\<close>
  "looksLikeRename request \<longleftrightarrow>
     rx_test (seqs [alts [LitI ''change'', LitI ''update'', LitI ''edit''], Star anyChar,
                    alts [LitI ''chapter'', LitI ''section'', LitI ''title''], Star anyChar,
                    alts [LitI ''to'', LitI ''as''], Plus (In isWhiteSpace),
                    Opt (OneOf quotes), Plus (NotIn quotes), Opt (OneOf quotes)]) request"

definition headingPatterns :: "string \<Rightarrow> rx list" where
  \<comment> \<open>lines 223 to 227, all three with the flags \<open>gi\<close>\<close>
  "headingPatterns chapterNum =
     [seqs [Alt (LitI ''Chapter'') (LitI ''chapter''), Star (In isWhiteSpace), LitI chapterNum,
            Star (NotIn [newline])],
      seqs [sectionOpenI, Star (NotIn [CHR 0x7D]), LitI ''Chapter'', Star (In isWhiteSpace),
            LitI chapterNum, Star (NotIn [CHR 0x7D]), ChI CHR 0x7D],
      seqs [Plus (ChI CHR ''#''), Star (In isWhiteSpace), LitI ''Chapter'', Star (In isWhiteSpace),
            LitI chapterNum, Star (NotIn [newline])]]"

fun firstPatternParts :: "string \<Rightarrow> rx list \<Rightarrow> string list" where
  \<comment> \<open>the loop of lines 229 to 248 up to its \<open>break\<close>: the context parts of the first
      pattern that matches somewhere, none when no pattern does\<close>
  "firstPatternParts markdown [] = []"
| "firstPatternParts markdown (pattern # patterns) =
     (let matches = rx_matchAll pattern markdown;
          contextParts =
            concat (map (\<lambda>m. case indexOf markdown m of
                                 Some index \<Rightarrow> [around markdown index (length m) 2000]
                               | None \<Rightarrow> []) matches)
      in if matches \<noteq> [] \<and> contextParts \<noteq> [] then contextParts
         else firstPatternParts markdown patterns)"

definition renameContext :: "string \<Rightarrow> string \<Rightarrow> string \<Rightarrow> string" where
  \<comment> \<open>lines 217 to 251\<close>
  "renameContext markdown request context =
     (if context = [] \<or> length context < 500
      then (if looksLikeRename request
            then (case chapterNumber request of
                    None \<Rightarrow> context
                  | Some chapterNum \<Rightarrow>
                      (let contextParts = firstPatternParts markdown (headingPatterns chapterNum)
                       in if contextParts \<noteq> []
                          then (if context \<noteq> [] then context @ ellipsisMarker else []) @
                               join ellipsisMarker contextParts
                          else context))
            else context)
      else context)"

definition stepsContext :: "MMDIndexServer \<Rightarrow> string \<Rightarrow> string option \<Rightarrow> string \<Rightarrow> int \<Rightarrow> string \<times> string" where
  \<comment> \<open>lines 109 to 252: \<open>context\<close> and \<open>enhancedInfo\<close> before the default strategy. The index is
      the one \<open>getMMDIndex()\<close> returns; no operation of the model raises, so the \<open>catch\<close>
      branches have no counterpart\<close>
  "stepsContext st markdown selectedText request maxChars =
     (let ex = extractIntent request;
          enhancedInfo = (if isLoaded st then getEnhancedContext st markdown selectedText request
                          else [])
      in case selectedText of
           Some sel \<Rightarrow>
             if sel \<noteq> [] \<and> trim sel \<noteq> []
             then selectionContext st markdown sel enhancedInfo
             else (let c1 = (if i_mentions ex \<noteq> [] then mentionsContext markdown (i_mentions ex) maxChars
                             else []);
                       (c2, info) = chapterContext st request (c1, enhancedInfo);
                       c3 = keywordContext markdown (i_keywords ex) c2
                   in (renameContext markdown request c3, info))
         | None \<Rightarrow>
             (let c1 = (if i_mentions ex \<noteq> [] then mentionsContext markdown (i_mentions ex) maxChars
                        else []);
                  (c2, info) = chapterContext st request (c1, enhancedInfo);
                  c3 = keywordContext markdown (i_keywords ex) c2
              in (renameContext markdown request c3, info)))"

definition defaultContext :: "string \<Rightarrow> int \<Rightarrow> string \<Rightarrow> string" where
  \<comment> \<open>lines 255 to 263\<close>
  "defaultContext markdown maxChars context =
     (if context = []
      then (if int (length markdown) > maxChars
            then (let firstPortion = substring markdown 0 (floorOf70Percent maxChars);
                      lastPortion = substringFrom markdown
                                      (int (length markdown) - floorOf30Percent maxChars)
                  in firstPortion @ continuesMarker @ lastPortion)
            else markdown)
      else context)"

definition annotations :: "string \<Rightarrow> string" where
  \<comment> \<open>what line 271 lets through of \<open>enhancedInfo\<close>\<close>
  "annotations enhancedInfo =
     (if enhancedInfo \<noteq> [] \<and> length enhancedInfo < 2000 then enhancedInfo else [])"

definition finalizeContext :: "int \<Rightarrow> string \<Rightarrow> string \<Rightarrow> string" where
  \<comment> \<open>lines 266 to 275\<close>
  "finalizeContext maxChars context enhancedInfo =
     (let context' = (if int (length context) > maxChars
                      then substring context 0 maxChars @ truncatedMarker
                      else context)
      in context' @ annotations enhancedInfo)"

definition assembledText :: "MMDIndexServer \<Rightarrow> string \<Rightarrow> string option \<Rightarrow> string \<Rightarrow> int \<Rightarrow> string" where
  \<comment> \<open>\<open>context\<close> at line 265, after the default strategy and before it is limited\<close>
  "assembledText st markdown selectedText request maxChars =
     defaultContext markdown maxChars (fst (stepsContext st markdown selectedText request maxChars))"

definition getRelevantContext :: "MMDIndexServer \<Rightarrow> string \<Rightarrow> string option \<Rightarrow> string \<Rightarrow> int \<Rightarrow> string" where
  \<comment> \<open>\<open>route.ts\<close>, lines 108 to 276\<close>
  "getRelevantContext st markdown selectedText request maxChars =
     finalizeContext maxChars (assembledText st markdown selectedText request maxChars)
       (snd (stepsContext st markdown selectedText request maxChars))"

section \<open>Vocabulary of the statements\<close>

text \<open>
  What follows is not part of the program: \<open>builtFrom\<close> names the index after a successful
  \<open>load\<close> of a transcript, \<open>allLines\<close>, \<open>linesBefore\<close> and \<open>pageOfEachLine\<close> describe the
  flattened transcript, \<open>headingAt\<close>, \<open>headingsFrom\<close> and \<open>headingsOfPages\<close> describe the
  headings the build collects, \<open>minlen\<close> is the length of the shortest text a pattern
  matches, \<open>capped\<close> is the invariant of the token index, and the remaining constants are
  the concrete transcripts and documents at which theorems are evaluated.
\<close>

definition builtFrom :: "MMDLinesData \<Rightarrow> MMDIndexServer" where
  "builtFrom d = load (Parsed (Some d)) newIndex"

definition allLines :: "MMDLinesData \<Rightarrow> MMDLine list" where
  "allLines d = concat (map p_lines (pages d))"

definition headingAt :: "int \<Rightarrow> nat \<Rightarrow> MMDLine \<Rightarrow> chapterEntry list" where
  "headingAt pg n ln =
     (let text = trim (l_text ln)
      in if length text > 5 \<and> isChapter text
         then [\<lparr>title = chapterTitle text, lineNum = n, page = pg\<rparr>] else [])"

fun headingsFrom :: "int \<Rightarrow> nat \<Rightarrow> MMDLine list \<Rightarrow> chapterEntry list" where
  "headingsFrom pg n [] = []"
| "headingsFrom pg n (ln # lns) = headingAt pg n ln @ headingsFrom pg (Suc n) lns"

fun headingsOfPages :: "nat \<Rightarrow> MMDPage list \<Rightarrow> chapterEntry list" where
  "headingsOfPages n [] = []"
| "headingsOfPages n (p # ps) =
     headingsFrom (p_page p) n (p_lines p) @ headingsOfPages (n + length (p_lines p)) ps"

definition tinyDoc :: MMDLinesData where
  "tinyDoc = \<lparr>pages = [\<lparr>image_id = ''p1'', p_page = 7,
                          p_lines = [\<lparr>l_text = ''ab'', l_line = 1, l_column = 0\<rparr>]\<rparr>]\<rparr>"

definition pageOfEachLine :: "MMDPage list \<Rightarrow> int list" where
  "pageOfEachLine ps = concat (map (\<lambda>p. replicate (length (p_lines p)) (p_page p)) ps)"

definition pageZeroDoc :: MMDLinesData where
  "pageZeroDoc = \<lparr>pages = [\<lparr>image_id = ''p0'', p_page = 0,
                              p_lines = [\<lparr>l_text = ''ab'', l_line = 1, l_column = 0\<rparr>]\<rparr>]\<rparr>"

fun minlen :: "rx \<Rightarrow> nat" where
  "minlen Eps = 0"
| "minlen (In P) = 1"
| "minlen (Seq a b) = minlen a + minlen b"
| "minlen (Alt a b) = min (minlen a) (minlen b)"
| "minlen (Star a) = 0"

definition linesBefore :: "MMDLinesData \<Rightarrow> nat \<Rightarrow> nat" where
  "linesBefore d pi = length (concat (map p_lines (take pi (pages d))))"

definition sectionExample :: string where
  "sectionExample = backslash # ''section*{Chapter 3: Origins}''"

definition originsDoc :: MMDLinesData where
  "originsDoc =
     \<lparr>pages = [\<lparr>image_id = ''p1'', p_page = 1,
                 p_lines = [\<lparr>l_text = ''ab'', l_line = 1, l_column = 0\<rparr>]\<rparr>,
               \<lparr>image_id = ''p2'', p_page = 2,
                 p_lines = [\<lparr>l_text = '' '' @ sectionExample, l_line = 1, l_column = 0\<rparr>]\<rparr>]\<rparr>"

definition capsDoc :: MMDLinesData where
  "capsDoc =
     \<lparr>pages = [\<lparr>image_id = ''p4'', p_page = 4,
                 p_lines = [\<lparr>l_text = backslash # ''section{CHAPTER 3}'', l_line = 1, l_column = 0\<rparr>]\<rparr>]\<rparr>"

definition repeatDoc :: "nat \<Rightarrow> MMDLinesData" where
  "repeatDoc n =
     \<lparr>pages = [\<lparr>image_id = ''p1'', p_page = 1,
                 p_lines = replicate n \<lparr>l_text = ''aaaa'', l_line = 1, l_column = 0\<rparr>\<rparr>]\<rparr>"

definition capped :: "nat \<Rightarrow> (string \<rightharpoonup> nat list) \<Rightarrow> bool" where
  "capped n m \<longleftrightarrow>
     (\<forall>k ns. m k = Some ns \<longrightarrow> sorted_wrt (<) ns \<and> (\<forall>x \<in> set ns. x < n) \<and> length ns \<le> 100)"

definition longDoc :: string where
  "longDoc = replicate 40 CHR ''x''"

definition dotIndex :: MMDIndex where
  "dotIndex =
     \<lparr>c_linesData = Some \<lparr>pages = [\<lparr>image_id = ''p1'', p_page = 1,
                                     p_lines = [\<lparr>l_text = ''abc'', l_line = 1, l_column = 0\<rparr>]\<rparr>]\<rparr>,
      c_loaded = True\<rparr>"

section \<open>Facts about strings and sets of line numbers\<close>

lemma startsWith_iff: "startsWith s p \<longleftrightarrow> (\<exists>v. s = p @ v)"
  by (induction s p rule: startsWith.induct) auto

lemma str_includes_iff: "str_includes s p \<longleftrightarrow> (\<exists>u v. s = u @ p @ v)"
proof (induction s)
  case Nil
  then show ?case by auto
next
  case (Cons c cs)
  show ?case
  proof
    assume "str_includes (c # cs) p"
    then consider "startsWith (c # cs) p" | "str_includes cs p" by auto
    then show "\<exists>u v. c # cs = u @ p @ v"
    proof cases
      case 1
      then obtain v where "c # cs = p @ v" by (auto simp: startsWith_iff)
      then have "c # cs = [] @ p @ v" by simp
      then show ?thesis by blast
    next
      case 2
      then obtain u v where "cs = u @ p @ v" using Cons.IH by blast
      then have "c # cs = (c # u) @ p @ v" by simp
      then show ?thesis by blast
    qed
  next
    assume "\<exists>u v. c # cs = u @ p @ v"
    then obtain u v where uv: "c # cs = u @ p @ v" by blast
    show "str_includes (c # cs) p"
    proof (cases u)
      case Nil
      then have "startsWith (c # cs) p" using uv by (auto simp: startsWith_iff)
      then show ?thesis by simp
    next
      case (Cons a u')
      then have "cs = u' @ p @ v" using uv by simp
      then have "str_includes cs p" using Cons.IH by blast
      then show ?thesis by simp
    qed
  qed
qed

lemma set_setAdd: "set (setAdd n xs) = insert n (set xs)"
  by (auto simp: setAdd_def)

lemma distinct_setAdd: "distinct xs \<Longrightarrow> distinct (setAdd n xs)"
  by (auto simp: setAdd_def)

lemma set_addAll: "set (addAll r ns) = set r \<union> set ns"
  unfolding addAll_def by (induction ns arbitrary: r) (auto simp: set_setAdd)

lemma distinct_addAll: "distinct r \<Longrightarrow> distinct (addAll r ns)"
  unfolding addAll_def by (induction ns arbitrary: r) (auto simp: distinct_setAdd)

lemma distinct_foldl_words:
  "distinct r \<Longrightarrow>
   distinct (foldl (\<lambda>r word. case m word of Some wm \<Rightarrow> addAll r wm | None \<Rightarrow> r) r ws)"
  by (induction ws arbitrary: r) (auto simp: distinct_addAll split: option.splits)

lemma distinct_foldl_scan:
  "distinct r \<Longrightarrow> distinct (foldl (\<lambda>r i. if P i then setAdd i r else r) r is)"
  by (induction "is" arbitrary: r) (auto simp: distinct_setAdd)

lemma set_foldl_scan:
  "set (foldl (\<lambda>r i. if P i then setAdd i r else r) r is) = set r \<union> {i \<in> set is. P i}"
  by (induction "is" arbitrary: r) (auto simp: set_setAdd)

lemma findTextLines_distinct: "distinct (findTextLines st text)"
  unfolding findTextLines_def Let_def
  by (auto intro!: distinct_foldl_scan distinct_foldl_words distinct_addAll split: option.splits)

lemma findTextLines_sorted: "sorted (findTextLines st text)"
  unfolding findTextLines_def Let_def by simp

lemma findTextLines_scan:
  assumes "loaded st" "linesData st \<noteq> None" "i < length (lineTexts st)"
    "str_includes (toLowerCase (lineTexts st ! i)) (toLowerCase (trim text))"
  shows "i \<in> set (findTextLines st text)"
  using assms unfolding findTextLines_def Let_def
  by (simp add: set_foldl_scan)

section \<open>What the build leaves in the index\<close>

lemma lineTexts_indexLine: "lineTexts (indexLine pg st ln) = lineTexts st @ [l_text ln]"
  by (simp add: indexLine_def Let_def)

lemma chapters_indexLine:
  "chapters (indexLine pg st ln) = chapters st @ headingAt pg (length (lineTexts st)) ln"
  by (simp add: indexLine_def headingAt_def Let_def)

lemma linesData_indexLine: "linesData (indexLine pg st ln) = linesData st"
  by (simp add: indexLine_def Let_def)

lemma loaded_indexLine: "loaded (indexLine pg st ln) = loaded st"
  by (simp add: indexLine_def Let_def)

lemma lineTexts_foldl_indexLine:
  "lineTexts (foldl (indexLine pg) st lns) = lineTexts st @ map l_text lns"
  by (induction lns arbitrary: st) (simp_all add: lineTexts_indexLine)

lemma chapters_foldl_indexLine:
  "chapters (foldl (indexLine pg) st lns) =
     chapters st @ headingsFrom pg (length (lineTexts st)) lns"
  by (induction lns arbitrary: st) (simp_all add: lineTexts_indexLine chapters_indexLine)

lemma lineTexts_foldl_indexPage:
  "lineTexts (foldl indexPage st ps) = lineTexts st @ map l_text (concat (map p_lines ps))"
  by (induction ps arbitrary: st) (simp_all add: indexPage_def lineTexts_foldl_indexLine)

lemma chapters_foldl_indexPage:
  "chapters (foldl indexPage st ps) = chapters st @ headingsOfPages (length (lineTexts st)) ps"
  by (induction ps arbitrary: st)
     (simp_all add: indexPage_def lineTexts_foldl_indexLine chapters_foldl_indexLine)

lemma linesData_foldl_indexLine: "linesData (foldl (indexLine pg) st lns) = linesData st"
  by (induction lns arbitrary: st) (simp_all add: linesData_indexLine)

lemma linesData_foldl_indexPage: "linesData (foldl indexPage st ps) = linesData st"
  by (induction ps arbitrary: st) (simp_all add: indexPage_def linesData_foldl_indexLine)

lemma load_failure_unloaded:
  "\<not> loaded newIndex" "\<not> loaded (load NotFound newIndex)" "\<not> loaded (load Failed newIndex)"
  by (simp_all add: load_def newIndex_def)

lemma builtFrom_loaded: "loaded (builtFrom d)"
  by (simp add: builtFrom_def load_def newIndex_def)

lemma builtFrom_linesData: "linesData (builtFrom d) = Some d"
  by (simp add: builtFrom_def load_def newIndex_def buildIndex_def Let_def linesData_foldl_indexPage)

lemma builtFrom_lineTexts: "lineTexts (builtFrom d) = map l_text (allLines d)"
  by (simp add: builtFrom_def load_def newIndex_def buildIndex_def Let_def
      lineTexts_foldl_indexPage allLines_def)

lemma builtFrom_chapters:
  "chapters (builtFrom d) = sort_key lineNum (headingsOfPages 0 (pages d))"
  by (simp add: builtFrom_def load_def newIndex_def buildIndex_def Let_def
      chapters_foldl_indexPage)

section \<open>The claims about the index\<close>

lemma length_substring_le: "length (substring s 0 k) \<le> nat k"
  by (simp add: substring_def Let_def)

lemma set_foldl_push:
  "set (foldl (\<lambda>results n. if c n then results @ [f n] else results) acc ns) =
     set acc \<union> f ` {n \<in> set ns. c n}"
  by (induction ns arbitrary: acc) auto

lemma foldl_push_all:
  assumes "\<forall>x \<in> set acc. P x" "\<forall>n \<in> set ns. c n \<longrightarrow> P (f n)"
  shows "\<forall>x \<in> set (foldl (\<lambda>results n. if c n then results @ [f n] else results) acc ns). P x"
  using assms unfolding set_foldl_push by auto

text \<open>
  Claim C2. For the index built from any document \<open>d\<close> and any fragment, \<open>findTextLines\<close>
  returns line indices in strictly ascending order (so without duplicates), and every line
  of the document whose lower-cased text contains the trimmed, lower-cased fragment as a
  substring is in the result.
\<close>

theorem findTextLines_sorted_complete:
  "sorted_wrt (<) (findTextLines (builtFrom d) fragment) \<and>
   (\<forall>i < length (allLines d).
      (\<exists>u v. toLowerCase (l_text (allLines d ! i)) = u @ toLowerCase (trim fragment) @ v)
      \<longrightarrow> i \<in> set (findTextLines (builtFrom d) fragment))"
proof
  show "sorted_wrt (<) (findTextLines (builtFrom d) fragment)"
    using findTextLines_sorted findTextLines_distinct
    by (simp add: strict_sorted_iff)
next
  show "\<forall>i < length (allLines d).
      (\<exists>u v. toLowerCase (l_text (allLines d ! i)) = u @ toLowerCase (trim fragment) @ v)
      \<longrightarrow> i \<in> set (findTextLines (builtFrom d) fragment)"
  proof (intro allI impI)
    fix i
    assume i: "i < length (allLines d)"
      and inc: "\<exists>u v. toLowerCase (l_text (allLines d ! i)) = u @ toLowerCase (trim fragment) @ v"
    have "str_includes (toLowerCase (lineTexts (builtFrom d) ! i)) (toLowerCase (trim fragment))"
      using i inc by (simp add: builtFrom_lineTexts str_includes_iff)
    then show "i \<in> set (findTextLines (builtFrom d) fragment)"
      using i findTextLines_scan[of "builtFrom d" i fragment]
      by (simp add: builtFrom_loaded builtFrom_linesData builtFrom_lineTexts)
  qed
qed

theorem findTextLines_sorted_complete_witness:
  "0 < length (allLines tinyDoc) \<and>
   toLowerCase (l_text (allLines tinyDoc ! 0)) = ''a'' @ toLowerCase (trim '' B '') @ [] \<and>
   0 \<in> set (findTextLines (builtFrom tinyDoc) '' B '')"
proof -
  have len: "0 < length (allLines tinyDoc)"
    by (simp add: allLines_def tinyDoc_def)
  have eq: "toLowerCase (l_text (allLines tinyDoc ! 0)) = ''a'' @ toLowerCase (trim '' B '') @ []"
    by code_simp
  from findTextLines_sorted_complete[of tinyDoc "'' B ''"] len eq
  have "0 \<in> set (findTextLines (builtFrom tinyDoc) '' B '')" by blast
  with len eq show ?thesis by blast
qed

text \<open>
  Claim C6. For the index built from any document, any fragment and any \<open>maxResults\<close>, every
  occurrence that \<open>findAllOccurrencesWithContext\<close> returns has a context window of at most
  1000 characters, a line-text snippet of at most 200 characters and a line index below the
  number of lines of the document.
\<close>

theorem windowed_occurrences_bounded:
  "\<forall>occ \<in> set (findAllOccurrencesWithContext (builtFrom d) fragment maxResults).
     length (o_context occ) \<le> 1000 \<and> length (o_text occ) \<le> 200 \<and>
     o_lineNum occ < length (allLines d)"
proof (cases "\<not> loaded (builtFrom d) \<or> linesData (builtFrom d) = None \<or> trim fragment = []")
  case True
  then show ?thesis by (simp add: findAllOccurrencesWithContext_def)
next
  case False
  have len: "length (lineTexts (builtFrom d)) = length (allLines d)"
    by (simp add: builtFrom_lineTexts)
  show ?thesis
    using False unfolding findAllOccurrencesWithContext_def Let_def
    apply (simp only: if_False)
    apply (rule foldl_push_all)
     apply simp
    apply (intro ballI impI)
    using length_substring_le[of _ 1000] length_substring_le[of _ 200]
    apply (simp add: len)
    done
qed

theorem windowed_occurrences_bounded_witness:
  "\<lparr>o_lineNum = 0, o_text = ''ab'', o_page = 7, o_context = ''ab''\<rparr>
      \<in> set (findAllOccurrencesWithContext (builtFrom tinyDoc) ''a'' 5) \<and>
   length (o_context \<lparr>o_lineNum = 0, o_text = ''ab'', o_page = 7, o_context = ''ab''\<rparr>) \<le> 1000 \<and>
   length (o_text \<lparr>o_lineNum = 0, o_text = ''ab'', o_page = 7, o_context = ''ab''\<rparr>) \<le> 200 \<and>
   o_lineNum \<lparr>o_lineNum = 0, o_text = ''ab'', o_page = 7, o_context = ''ab''\<rparr>
      < length (allLines tinyDoc)"
proof -
  have run: "findAllOccurrencesWithContext (builtFrom tinyDoc) ''a'' 5 =
               [\<lparr>o_lineNum = 0, o_text = ''ab'', o_page = 7, o_context = ''ab''\<rparr>]"
    unfolding builtFrom_def by code_simp
  then have mem: "\<lparr>o_lineNum = 0, o_text = ''ab'', o_page = 7, o_context = ''ab''\<rparr>
      \<in> set (findAllOccurrencesWithContext (builtFrom tinyDoc) ''a'' 5)" by simp
  from windowed_occurrences_bounded[of tinyDoc "''a''" 5] mem show ?thesis by blast
qed

text \<open>
  Claim C9. While the index is not loaded, every query returns its empty result:
  \<open>findTextLines\<close>, \<open>findChapter\<close> and \<open>findAllOccurrencesWithContext\<close> the empty list,
  \<open>getContextAroundLines\<close> and \<open>getEnhancedContext\<close> the empty string, and
  \<open>getDocumentStructure\<close> no chapters, zero pages and zero lines. The queries of the model
  are total functions with no error value, so each of them returns. The index is not loaded
  when \<open>load\<close> was never run, and stays so when the transcript is missing or cannot be read
  or parsed (\<open>load_failure_unloaded\<close>).
\<close>

theorem unloaded_queries_empty:
  assumes "\<not> loaded st"
  shows "findTextLines st fragment = [] \<and>
         findChapter st query = [] \<and>
         findAllOccurrencesWithContext st fragment maxResults = [] \<and>
         getContextAroundLines st lineNums contextLines = [] \<and>
         getEnhancedContext st markdown selectedText request = [] \<and>
         getDocumentStructure st = \<lparr>ds_chapters = [], totalPages = 0, totalLines = 0\<rparr>"
  using assms
  by (simp add: findTextLines_def findChapter_def findAllOccurrencesWithContext_def
      getContextAroundLines_def getEnhancedContext_def getDocumentStructure_def
      split: option.splits)

theorem unloaded_queries_empty_witness:
  "\<not> loaded (load NotFound newIndex) \<and>
   findTextLines (load NotFound newIndex) ''abc'' = [] \<and>
   findChapter (load NotFound newIndex) ''Chapter 3'' = [] \<and>
   findAllOccurrencesWithContext (load NotFound newIndex) ''abc'' 5 = [] \<and>
   getContextAroundLines (load NotFound newIndex) [0, 1] 15 = [] \<and>
   getEnhancedContext (load NotFound newIndex) ''text'' (Some ''abc'') ''fix chapter 3'' = [] \<and>
   getDocumentStructure (load NotFound newIndex) = \<lparr>ds_chapters = [], totalPages = 0, totalLines = 0\<rparr>"
proof -
  have h: "\<not> loaded (load NotFound newIndex)"
    by (simp add: load_def newIndex_def)
  from unloaded_queries_empty[OF h, of "''abc''" "''Chapter 3''" 5 "[0, 1]" 15 "''text''" "Some ''abc''" "''fix chapter 3''"] h
  show ?thesis by simp
qed

lemma pageOfLine_in_range:
  "cur \<le> n \<Longrightarrow> nat (n - cur) < length (pageOfEachLine ps) \<Longrightarrow>
   pageOfLine ps cur n = Some (pageOfEachLine ps ! nat (n - cur))"
proof (induction ps arbitrary: cur)
  case Nil
  then show ?case by (simp add: pageOfEachLine_def)
next
  case (Cons p ps)
  let ?k = "int (length (p_lines p))"
  show ?case
  proof (cases "n < cur + ?k")
    case True
    then have "nat (n - cur) < length (p_lines p)" using Cons.prems by linarith
    then show ?thesis using True
      by (simp add: pageOfEachLine_def nth_append)
  next
    case False
    have a: "cur + ?k \<le> n" using False by simp
    have eq: "nat (n - (cur + ?k)) = nat (n - cur) - length (p_lines p)"
      using a Cons.prems by linarith
    have b: "nat (n - (cur + ?k)) < length (pageOfEachLine ps)"
      using Cons.prems a by (simp add: pageOfEachLine_def)
    have "pageOfLine ps (cur + ?k) n = Some (pageOfEachLine ps ! nat (n - (cur + ?k)))"
      using Cons.IH[OF a b] .
    moreover have "\<not> nat (n - cur) < length (p_lines p)" using a Cons.prems by linarith
    ultimately show ?thesis using False eq
      by (simp add: pageOfEachLine_def nth_append Let_def)
  qed
qed

lemma pageOfLine_beyond:
  "cur + int (length (pageOfEachLine ps)) \<le> n \<Longrightarrow> pageOfLine ps cur n = None"
proof (induction ps arbitrary: cur)
  case Nil
  then show ?case by simp
next
  case (Cons p ps)
  then show ?case by (simp add: pageOfEachLine_def Let_def add.assoc)
qed

lemma length_pageOfEachLine: "length (pageOfEachLine (pages d)) = length (allLines d)"
  by (simp add: pageOfEachLine_def allLines_def length_concat comp_def)

lemma getPageForLine_in_range:
  assumes "0 \<le> n" "nat n < length (allLines d)"
  shows "getPageForLine (builtFrom d) n = pageOfEachLine (pages d) ! nat n"
  using assms pageOfLine_in_range[of 0 n "pages d"]
  by (simp add: getPageForLine_def builtFrom_loaded builtFrom_linesData length_pageOfEachLine)

lemma getPageForLine_beyond:
  assumes "int (length (allLines d)) \<le> n"
  shows "getPageForLine (builtFrom d) n =
           (if pages d = [] \<or> p_page (last (pages d)) = 0 then 1 else p_page (last (pages d)))"
  using assms pageOfLine_beyond[of 0 "pages d" n]
  by (simp add: getPageForLine_def builtFrom_loaded builtFrom_linesData length_pageOfEachLine)

lemma getPageForLine_unloaded: "\<not> loaded st \<Longrightarrow> getPageForLine st n = 1"
  by (simp add: getPageForLine_def split: option.splits)

text \<open>
  Claim C10. \<open>getPageForLine\<close> is a total function; it returns 1 while the index is not
  loaded (\<open>getPageForLine_unloaded\<close>) and the page number of the page that holds the line
  for a line index of the document (\<open>getPageForLine_in_range\<close>). For a line index at or
  beyond the number of lines the claim promises the page number of the last page. The source
  ends with \<open>pages[pages.length - 1]?.page || 1\<close>, and \<open>|| 1\<close> also replaces a page number 0:
  in the transcript whose only page is numbered 0 and holds one line, line 0 is on page 0 but
  line 1, beyond the end, is reported on page 1 (\<open>getPageForLine_beyond\<close> is what holds in
  general).
\<close>

theorem getPageForLine_page_zero:
  "p_page (last (pages pageZeroDoc)) = 0 \<and> length (allLines pageZeroDoc) = 1 \<and>
   getPageForLine (builtFrom pageZeroDoc) 0 = 0 \<and>
   getPageForLine (builtFrom pageZeroDoc) 1 = 1"
  unfolding builtFrom_def by code_simp

section \<open>Headings\<close>

lemma rx_rests_minlen:
  "t \<in> set (rx_rests r s) \<Longrightarrow> length t + minlen r \<le> length s"
proof (induction r s arbitrary: t rule: rx_rests.induct)
  case (1 s)
  then show ?case by (simp add: rx_rests.simps(1))
next
  case (2 P s)
  then show ?case by (auto simp: rx_rests.simps(2) split: list.splits if_splits)
next
  case (3 a b s)
  from "3.prems" obtain u where u: "u \<in> set (rx_rests a s)" and t: "t \<in> set (rx_rests b u)"
    by (auto simp: rx_rests.simps(3))
  from "3.IH"(1)[OF u] "3.IH"(2)[OF u t] show ?case by simp
next
  case (4 a b s)
  then show ?case by (fastforce simp: rx_rests.simps(4))
next
  case (5 a s)
  from "5.prems" consider "t = s"
    | u where "u \<in> set (rx_rests a s)" "length u < length s" "t \<in> set (rx_rests (Star a) u)"
    by (auto simp: rx_rests.simps(5)[of a s] split: if_splits)
  then show ?case
  proof cases
    case 1
    then show ?thesis by simp
  next
    case 2
    from "5.IH"(2)[OF 2(1) 2(2) 2(3)] 2(2) show ?thesis by simp
  qed
qed

lemma rx_at_minlen: "rx_at r s \<Longrightarrow> minlen r \<le> length s"
proof -
  assume "rx_at r s"
  then obtain t where "t \<in> set (rx_rests r s)"
    by (cases "rx_rests r s") (auto simp: rx_at_def)
  from rx_rests_minlen[OF this] show ?thesis by simp
qed

lemma rx_test_minlen: "rx_test r s \<Longrightarrow> minlen r \<le> length s"
proof (induction s)
  case Nil
  then show ?case using rx_at_minlen[of r "[]"] by simp
next
  case (Cons c cs)
  then show ?case using rx_at_minlen[of r "c # cs"] by auto
qed

lemma minlen_Lit: "minlen (Lit s) = length s"
  by (induction s) (simp_all add: Lit_def Ch_def)

lemma minlen_LitI: "minlen (LitI s) = length s"
  by (induction s) (simp_all add: LitI_def ChI_def)

lemma isChapter_length: "isChapter text \<Longrightarrow> length text > 5"
proof -
  assume "isChapter text"
  then consider
      "rx_test (seqs [sectionOpenI, Star (NotIn [CHR 0x7D]), LitI ''Chapter'']) text"
    | "rx_test (seqs [LitI (backslash # ''chapter''), Opt (ChI CHR ''*''), ChI CHR 0x7B]) text"
    | "rx_at sectionOpenI text"
    | "rx_test (seqs [LitI ''Chapter'', Plus (In isWhiteSpace), Plus (In isDigit),
                    Star (NotIn [CHR 0x7D]), ChI CHR 0x7D]) text"
    | "rx_at (seqs [Ch CHR ''#'', upto_times 5 (Ch CHR ''#''), Plus (In isWhiteSpace),
                  LitI ''Chapter'']) text"
    | "rx_test (seqs [Lit (backslash # ''section''), Ch CHR ''*'', Ch CHR 0x7B, Lit ''Chapter'',
                    Plus (In isWhiteSpace), Plus (In isDigit)]) text"
    unfolding isChapter_def by blast
  then show ?thesis
  proof cases
    case 1
    from rx_test_minlen[OF this] show ?thesis
      by (simp add: sectionOpenI_def minlen_LitI Opt_def ChI_def NotIn_def)
  next
    case 2
    from rx_test_minlen[OF this] show ?thesis
      by (simp add: minlen_LitI Opt_def ChI_def)
  next
    case 3
    from rx_at_minlen[OF this] show ?thesis
      by (simp add: sectionOpenI_def minlen_LitI Opt_def ChI_def)
  next
    case 4
    from rx_test_minlen[OF this] show ?thesis
      by (simp add: minlen_LitI Plus_def ChI_def NotIn_def)
  next
    case 5
    from rx_at_minlen[OF this] show ?thesis
      by (simp add: minlen_LitI Plus_def Ch_def Opt_def)
  next
    case 6
    from rx_test_minlen[OF this] show ?thesis
      by (simp add: minlen_Lit Plus_def Ch_def)
  qed
qed

lemma headingsFrom_mem:
  "li < length lns \<Longrightarrow> set (headingAt pg (n + li) (lns ! li)) \<subseteq> set (headingsFrom pg n lns)"
proof (induction lns arbitrary: n li)
  case Nil
  then show ?case by simp
next
  case (Cons ln lns)
  show ?case
  proof (cases li)
    case 0
    then show ?thesis by simp
  next
    case (Suc k)
    then have "k < length lns" using Cons.prems by simp
    from Cons.IH[OF this, of "Suc n"] Suc show ?thesis by auto
  qed
qed

lemma headingsOfPages_mem:
  "pi < length ps \<Longrightarrow> li < length (p_lines (ps ! pi)) \<Longrightarrow>
   set (headingAt (p_page (ps ! pi)) (n + length (concat (map p_lines (take pi ps))) + li)
          (p_lines (ps ! pi) ! li))
     \<subseteq> set (headingsOfPages n ps)"
proof (induction ps arbitrary: n pi)
  case Nil
  then show ?case by simp
next
  case (Cons p ps)
  show ?case
  proof (cases pi)
    case 0
    then show ?thesis using headingsFrom_mem[of li "p_lines p" "p_page p" n] Cons.prems
      by auto
  next
    case (Suc k)
    then have k: "k < length ps" "li < length (p_lines (ps ! k))" using Cons.prems by simp_all
    from Cons.IH[OF k, of "n + length (p_lines p)"] Suc show ?thesis
      by (auto simp: add.assoc)
  qed
qed

text \<open>
  Claim C7. During the build, every line whose trimmed text matches a heading pattern is
  registered as a heading: the list of chapters of the built index holds an entry with the
  cleaned title of the line, the global index of the line (the number of lines on the pages
  before its page, plus its position on its page) and the page number of the page that
  contains it. The line \<open>\section*{Chapter 3: Origins}\<close> matches a heading pattern and its
  cleaned title is \<open>Chapter 3: Origins\<close>, which contains \<open>Chapter 3\<close>.
\<close>

theorem heading_registered:
  "(\<forall>pi li t.
      pi < length (pages d) \<and> li < length (p_lines (pages d ! pi)) \<and>
      t = trim (l_text (p_lines (pages d ! pi) ! li)) \<and> isChapter t
      \<longrightarrow> \<lparr>title = chapterTitle t, lineNum = linesBefore d pi + li,
              page = p_page (pages d ! pi)\<rparr> \<in> set (chapters (builtFrom d))) \<and>
   isChapter sectionExample \<and>
   chapterTitle sectionExample = ''Chapter 3: Origins'' \<and>
   str_includes (chapterTitle sectionExample) ''Chapter 3''"
proof (intro conjI allI impI)
  fix pi li t
  assume a: "pi < length (pages d) \<and> li < length (p_lines (pages d ! pi)) \<and>
      t = trim (l_text (p_lines (pages d ! pi) ! li)) \<and> isChapter t"
  then have len: "length t > 5" using isChapter_length by blast
  have "set (headingAt (p_page (pages d ! pi)) (0 + linesBefore d pi + li)
               (p_lines (pages d ! pi) ! li)) \<subseteq> set (headingsOfPages 0 (pages d))"
    unfolding linesBefore_def using a by (intro headingsOfPages_mem) simp_all
  moreover have "headingAt (p_page (pages d ! pi)) (0 + linesBefore d pi + li)
                   (p_lines (pages d ! pi) ! li) =
                 [\<lparr>title = chapterTitle t, lineNum = linesBefore d pi + li,
                   page = p_page (pages d ! pi)\<rparr>]"
  proof -
    from a have t: "trim (l_text (p_lines (pages d ! pi) ! li)) = t" by blast
    from a have ch: "isChapter t" by blast
    show ?thesis using ch len by (simp add: headingAt_def Let_def t)
  qed
  ultimately show "\<lparr>title = chapterTitle t, lineNum = linesBefore d pi + li,
              page = p_page (pages d ! pi)\<rparr> \<in> set (chapters (builtFrom d))"
    by (simp add: builtFrom_chapters)
next
  show "isChapter sectionExample" by code_simp
next
  show t: "chapterTitle sectionExample = ''Chapter 3: Origins''" by code_simp
  show "str_includes (chapterTitle sectionExample) ''Chapter 3''"
    unfolding t by simp
qed

theorem heading_registered_witness:
  "(1::nat) < length (pages originsDoc) \<and> (0::nat) < length (p_lines (pages originsDoc ! 1)) \<and>
   sectionExample = trim (l_text (p_lines (pages originsDoc ! 1) ! 0)) \<and>
   isChapter sectionExample \<and>
   \<lparr>title = ''Chapter 3: Origins'', lineNum = 1, page = 2\<rparr> \<in> set (chapters (builtFrom originsDoc))"
proof -
  have h1: "(1::nat) < length (pages originsDoc)" by (simp add: originsDoc_def)
  have h2: "(0::nat) < length (p_lines (pages originsDoc ! 1))" by (simp add: originsDoc_def)
  have h3: "sectionExample = trim (l_text (p_lines (pages originsDoc ! 1) ! 0))" by code_simp
  have n: "linesBefore originsDoc 1 + 0 = 1" by (simp add: linesBefore_def originsDoc_def)
  have p: "p_page (pages originsDoc ! 1) = 2" by (simp add: originsDoc_def)
  from heading_registered[of originsDoc] h1 h2 h3
  have "\<lparr>title = chapterTitle sectionExample, lineNum = linesBefore originsDoc 1 + 0,
          page = p_page (pages originsDoc ! 1)\<rparr> \<in> set (chapters (builtFrom originsDoc))"
    by blast
  moreover from heading_registered[of originsDoc]
  have "isChapter sectionExample" "chapterTitle sectionExample = ''Chapter 3: Origins''"
    by blast+
  ultimately show ?thesis using h1 h2 h3 n p by simp
qed

text \<open>
  Claim C5. The secondary path of \<open>findChapter\<close> takes the first number \<open>n\<close> of the query
  and is to return every heading whose title contains \<open>Chapter n\<close> in any letter case. The
  source tests \<open>title.includes(`Chapter ${num}`) || title.includes(`chapter ${num}`)\<close>, two
  spellings only. The line \<open>\section{CHAPTER 3}\<close> is registered with the title \<open>CHAPTER 3\<close>,
  which contains \<open>Chapter 3\<close> when letter case is ignored; the query \<open>see 3\<close> has the number
  3 and matches nothing on the substring path, and \<open>findChapter\<close> returns no heading.
\<close>

theorem findChapter_upper_case_missed:
  "map title (chapters (builtFrom capsDoc)) = [''CHAPTER 3''] \<and>
   firstNumber ''see 3'' = Some ''3'' \<and>
   str_includes (toLowerCase ''CHAPTER 3'') (toLowerCase (''Chapter '' @ ''3'')) \<and>
   findChapter (builtFrom capsDoc) ''see 3'' = []"
  unfolding builtFrom_def by code_simp

theorem findChapter_upper_case_missed_witness:
  "loaded (builtFrom capsDoc) \<and> linesData (builtFrom capsDoc) = Some capsDoc \<and>
   map title (chapters (builtFrom capsDoc)) = [''CHAPTER 3''] \<and>
   findChapter (builtFrom capsDoc) ''see 3'' = []"
  using findChapter_upper_case_missed builtFrom_loaded[of capsDoc] builtFrom_linesData[of capsDoc]
  by simp

section \<open>The token index\<close>

lemma capped_mono: "capped n m \<Longrightarrow> n \<le> n' \<Longrightarrow> capped n' m"
  unfolding capped_def by fastforce

lemma capped_indexFullText:
  assumes "capped n m"
  shows "capped (Suc n) (indexFullText key n m)"
proof -
  have base: "capped (Suc n) m" using assms by (rule capped_mono) simp
  show ?thesis
  proof (cases "m key")
    case None
    then have "indexFullText key n m = m(key \<mapsto> [n])"
      by (simp add: indexFullText_def Let_def)
    then show ?thesis using base unfolding capped_def by auto
  next
    case (Some e)
    from assms Some have e: "sorted_wrt (<) e" "\<forall>x \<in> set e. x < n" "length e \<le> 100"
      unfolding capped_def by blast+
    show ?thesis
    proof (cases "length e < 50")
      case True
      then have "indexFullText key n m = m(key \<mapsto> e @ [n])"
        using Some by (simp add: indexFullText_def Let_def)
      moreover have "sorted_wrt (<) (e @ [n])" using e by (simp add: sorted_wrt_append)
      ultimately show ?thesis using base e True unfolding capped_def by auto
    next
      case False
      then have "indexFullText key n m = m"
        using Some by (simp add: indexFullText_def Let_def)
      then show ?thesis using base by simp
    qed
  qed
qed

lemma capped_indexWord:
  assumes "capped (Suc n) m"
  shows "capped (Suc n) (indexWord word n m)"
proof (cases "m word")
  case None
  then have "indexWord word n m = m(word \<mapsto> [n])"
    by (simp add: indexWord_def Let_def)
  then show ?thesis using assms unfolding capped_def by auto
next
  case (Some e)
  from assms Some have e: "sorted_wrt (<) e" "\<forall>x \<in> set e. x < Suc n" "length e \<le> 100"
    unfolding capped_def by blast+
  show ?thesis
  proof (cases "n \<notin> set e \<and> length e < 100")
    case True
    then have eq: "indexWord word n m = m(word \<mapsto> e @ [n])"
      using Some by (simp add: indexWord_def Let_def)
    have "\<forall>x \<in> set e. x < n"
    proof
      fix x assume x: "x \<in> set e"
      then have "x < Suc n" using e by blast
      moreover have "x \<noteq> n" using x True by blast
      ultimately show "x < n" by simp
    qed
    then have "sorted_wrt (<) (e @ [n])" using e by (simp add: sorted_wrt_append)
    then show ?thesis using assms e True unfolding capped_def eq by auto
  next
    case False
    then have "indexWord word n m = m"
      using Some by (auto simp: indexWord_def Let_def)
    then show ?thesis using assms by simp
  qed
qed

lemma capped_foldl_indexWord:
  "capped (Suc n) m \<Longrightarrow> capped (Suc n) (foldl (\<lambda>m word. indexWord word n m) m ws)"
  by (induction ws arbitrary: m) (simp_all add: capped_indexWord)

lemma capped_indexLine:
  assumes "capped (length (lineTexts st)) (textToLinesMap st)"
  shows "capped (length (lineTexts (indexLine pg st ln))) (textToLinesMap (indexLine pg st ln))"
proof -
  let ?n = "length (lineTexts st)"
  have len: "length (lineTexts (indexLine pg st ln)) = Suc ?n"
    by (simp add: lineTexts_indexLine)
  have m0: "capped (Suc ?n) (textToLinesMap st)" using assms by (rule capped_mono) simp
  have m1: "capped (Suc ?n) (indexFullText k ?n (textToLinesMap st))" for k
    using assms by (rule capped_indexFullText)
  have "capped (Suc ?n) (textToLinesMap (indexLine pg st ln))"
    unfolding indexLine_def Let_def
    using m0 m1 by (auto intro!: capped_foldl_indexWord)
  then show ?thesis using len by simp
qed

lemma capped_foldl_indexLine:
  "capped (length (lineTexts st)) (textToLinesMap st) \<Longrightarrow>
   capped (length (lineTexts (foldl (indexLine pg) st lns))) (textToLinesMap (foldl (indexLine pg) st lns))"
  by (induction lns arbitrary: st) (simp_all add: capped_indexLine)

lemma capped_foldl_indexPage:
  "capped (length (lineTexts st)) (textToLinesMap st) \<Longrightarrow>
   capped (length (lineTexts (foldl indexPage st ps))) (textToLinesMap (foldl indexPage st ps))"
  by (induction ps arbitrary: st) (simp_all add: indexPage_def capped_foldl_indexLine)

lemma token_lists_increasing_capped:
  assumes "textToLinesMap (builtFrom d) k = Some ns"
  shows "sorted_wrt (<) ns \<and> length ns \<le> 100"
proof -
  let ?st0 = "newIndex\<lparr>linesData := Some d, lineTexts := [], textToLinesMap := Map.empty, chapters := []\<rparr>"
  have "capped (length (lineTexts ?st0)) (textToLinesMap ?st0)"
    by (simp add: capped_def)
  from capped_foldl_indexPage[OF this, of "pages d"]
  have "capped (length (lineTexts (foldl indexPage ?st0 (pages d))))
          (textToLinesMap (builtFrom d))"
    by (simp add: builtFrom_def load_def newIndex_def buildIndex_def Let_def)
  then show ?thesis using assms unfolding capped_def by blast
qed

text \<open>
  Claim C8. After the build every list of the token index is strictly increasing and holds
  at most 100 line indices (\<open>token_lists_increasing_capped\<close>). The cap of 50 on a key that
  is the full text of a line does not hold: such a key can also be a word of the line, and
  the word path of lines 118 to 124 appends to the same list up to 100 entries. In a
  transcript of 51 lines that all read \<open>aaaa\<close>, the key \<open>aaaa\<close> is the full normalised text
  of every line and its list holds 51 line indices.
\<close>

theorem full_line_key_over_cap:
  "toLowerCase (trim (l_text (allLines (repeatDoc 51) ! 50))) = ''aaaa'' \<and>
   map_option length (textToLinesMap (builtFrom (repeatDoc 51)) ''aaaa'') = Some 51"
  unfolding builtFrom_def by code_simp

section \<open>Escaping of patterns\<close>

lemma compileI_escapeRegExp: "compileI (escapeRegExp k) = Pattern (LitI k)"
proof (induction k)
  case Nil
  then show ?case by (simp add: escapeRegExp_def LitI_def)
next
  case (Cons c k)
  have bs: "backslash \<in> set regexSpecials" "CHR ''.'' \<in> set regexSpecials"
    by (simp_all add: regexSpecials_def)
  have step: "escapeRegExp (c # k) =
                (if c \<in> set regexSpecials then [backslash, c] else [c]) @ escapeRegExp k"
    by (simp add: escapeRegExp_def)
  have lit: "LitI (c # k) = Seq (ChI c) (LitI k)" by (simp add: LitI_def)
  show ?case
  proof (cases "c \<in> set regexSpecials")
    case True
    then show ?thesis using Cons.IH by (simp add: step lit)
  next
    case False
    then have "c \<noteq> backslash" "c \<noteq> CHR ''.''" using bs by auto
    then show ?thesis using False Cons.IH by (simp add: step lit)
  qed
qed

lemma keywordScore_literal:
  "keywordScore block keyword = Inr (length (rx_matchAll (LitI keyword) block))"
  by (simp add: keywordScore_def compileI_escapeRegExp)

text \<open>
  Claim C4. Every pattern that is built from caller-supplied text is to be escaped before it
  is compiled. \<open>findRelevantSections\<close> does so: the source it hands to \<open>new RegExp\<close> compiles
  to the literal keyword (\<open>compileI_escapeRegExp\<close>, \<open>keywordScore_literal\<close>). The client-side
  \<open>findAllOccurrences\<close> hands its argument to \<open>new RegExp\<close> as it is: for the fragment \<open>a.c\<close>
  it returns the line \<open>abc\<close>, which does not contain the fragment, because the dot is
  compiled as a wildcard; the escaped fragment compiles to a different pattern.
\<close>

theorem findAllOccurrences_unescaped:
  "findAllOccurrences dotIndex ''a.c'' = Inr [\<lparr>h_lineNum = 0, h_text = ''abc'', h_page = 1\<rparr>] \<and>
   \<not> str_includes (toLowerCase ''abc'') (toLowerCase ''a.c'') \<and>
   compileI ''a.c'' \<noteq> compileI (escapeRegExp ''a.c'')"
  by code_simp

section \<open>The context assembler\<close>

lemma length_truncatedMarker: "length truncatedMarker = 20"
  by (simp add: truncatedMarker_def)

lemma length_annotations: "length (annotations info) < 2000"
  by (simp add: annotations_def)

lemma length_substring0: "length (substring s 0 k) = min (length s) (nat k)"
  by (auto simp: substring_def Let_def min_def max_def)

lemma length_finalizeContext:
  "int (length (finalizeContext B ctx info)) \<le> max 0 B + 20 + 1999"
proof -
  have n: "int (length (annotations info)) \<le> 1999" using length_annotations[of info] by simp
  show ?thesis
  proof (cases "int (length ctx) > B")
    case True
    have "int (length (substring ctx 0 B)) \<le> max 0 B"
      by (simp add: length_substring0)
    then show ?thesis using True n
      by (simp add: finalizeContext_def Let_def length_truncatedMarker)
  next
    case False
    then show ?thesis using n by (simp add: finalizeContext_def Let_def)
  qed
qed

text \<open>
  Claim C1 says that the returned context is at most \<open>B\<close> characters long. With no index, a
  document of 40 characters, an empty instruction and the budget 10, the default strategy
  assembles more than 10 characters, the text is cut to 10 and the truncation marker of 20
  characters is appended: 30 characters are returned.
\<close>

theorem context_length_counterexample:
  "\<not> int (length (getRelevantContext newIndex longDoc None [] 10)) \<le> 10"
  by code_simp

text \<open>
  Claim C1, amended. For every index, document, excerpt, instruction and budget \<open>B\<close>, the
  returned string is the assembled text, hard-truncated to \<open>B\<close> characters and followed by
  the truncation marker of 20 characters whenever it exceeds \<open>B\<close>, and then followed by the
  advisory annotations, which are fewer than 2000 characters (or dropped). So the returned
  string has at most \<open>max 0 B + 20 + 1999\<close> characters.
\<close>

theorem context_length_bounded:
  "int (length (getRelevantContext st md sel req B)) \<le> max 0 B + 20 + 1999 \<and>
   getRelevantContext st md sel req B =
     (if int (length (assembledText st md sel req B)) > B
      then substring (assembledText st md sel req B) 0 B @ truncatedMarker
      else assembledText st md sel req B) @
     annotations (snd (stepsContext st md sel req B)) \<and>
   length (substring (assembledText st md sel req B) 0 B) \<le> nat B \<and>
   length truncatedMarker = 20 \<and>
   length (annotations (snd (stepsContext st md sel req B))) < 2000"
  using length_finalizeContext[of B "assembledText st md sel req B" "snd (stepsContext st md sel req B)"]
  by (simp add: getRelevantContext_def finalizeContext_def Let_def length_substring0
      length_truncatedMarker length_annotations)

theorem context_length_bounded_witness:
  "int (length (assembledText newIndex longDoc None [] 10)) > 10 \<and>
   getRelevantContext newIndex longDoc None [] 10 =
     substring (assembledText newIndex longDoc None [] 10) 0 10 @ truncatedMarker \<and>
   length (getRelevantContext newIndex longDoc None [] 10) = 30"
proof -
  have a: "int (length (assembledText newIndex longDoc None [] 10)) > 10" by code_simp
  have n: "annotations (snd (stepsContext newIndex longDoc None [] 10)) = []" by code_simp
  have l: "length (substring (assembledText newIndex longDoc None [] 10) 0 10 @ truncatedMarker) = 30"
    by code_simp
  from context_length_bounded[of newIndex longDoc None "[]" 10] a n
  have "getRelevantContext newIndex longDoc None [] 10 =
     substring (assembledText newIndex longDoc None [] 10) 0 10 @ truncatedMarker" by simp
  with a l show ?thesis by simp
qed

lemma defaultContext_nonempty: "md \<noteq> [] \<Longrightarrow> defaultContext md B c \<noteq> []"
  by (simp add: defaultContext_def Let_def continuesMarker_def)

lemma finalizeContext_nonempty: "ctx \<noteq> [] \<Longrightarrow> finalizeContext B ctx info \<noteq> []"
  by (simp add: finalizeContext_def Let_def truncatedMarker_def)

lemma getRelevantContext_nonempty:
  "md \<noteq> [] \<Longrightarrow> getRelevantContext st md sel req B \<noteq> []"
  unfolding getRelevantContext_def assembledText_def
  by (intro finalizeContext_nonempty defaultContext_nonempty)

lemma fallback_assembled:
  assumes "fst (stepsContext st md sel req B) = []"
  shows "assembledText st md sel req B =
           (if int (length md) \<le> B then md
            else substring md 0 (floorOf70Percent B) @ continuesMarker @
                 substringFrom md (int (length md) - floorOf30Percent B))"
  using assms by (simp add: assembledText_def defaultContext_def Let_def)

lemma fallback_fits:
  assumes "fst (stepsContext st md sel req B) = []" "int (length md) \<le> B"
  shows "getRelevantContext st md sel req B = md @ annotations (snd (stepsContext st md sel req B))"
  using assms fallback_assembled[OF assms(1)]
  by (simp add: getRelevantContext_def finalizeContext_def Let_def)

lemma floors_at_default_budget:
  "floorOf70Percent 25000 = 17500" "floorOf30Percent 25000 = 7500"
  by code_simp+

lemma substring0_take: "0 \<le> k \<Longrightarrow> substring s 0 k = take (nat k) s"
  by (auto simp: substring_def Let_def min_def max_def)

lemma substringFrom_drop:
  "0 \<le> a \<Longrightarrow> a \<le> int (length s) \<Longrightarrow> substringFrom s a = drop (nat a) s"
  by (auto simp: substringFrom_def substring_def Let_def min_def max_def)

lemma length_continuesMarker: "length continuesMarker = 32"
  by (simp add: continuesMarker_def)

lemma fallback_cut_at_default_budget:
  assumes "fst (stepsContext st md sel req 25000) = []" "length md > 25000"
  shows "getRelevantContext st md sel req 25000 =
           take 17500 md @ continuesMarker @ take 7468 (drop (length md - 7500) md) @
           truncatedMarker @ annotations (snd (stepsContext st md sel req 25000))"
proof -
  let ?tail = "drop (length md - 7500) md"
  have a: "assembledText st md sel req 25000 = take 17500 md @ continuesMarker @ ?tail"
  proof -
    have "substring md 0 17500 = take 17500 md" by (simp add: substring0_take)
    moreover have "substringFrom md (int (length md) - 7500) = ?tail"
      using assms(2) by (simp add: substringFrom_drop nat_diff_distrib)
    ultimately show ?thesis
      using assms fallback_assembled[OF assms(1)] by (simp add: floors_at_default_budget)
  qed
  have l1: "length (take 17500 md) = 17500" using assms(2) by simp
  have l2: "length ?tail = 7500" using assms(2) by simp
  have len: "length (take 17500 md @ continuesMarker @ ?tail) = 25032"
    using l1 l2 by (simp add: length_continuesMarker)
  have cut: "take 25000 (take 17500 md @ continuesMarker @ ?tail) =
               take 17500 md @ continuesMarker @ take 7468 ?tail"
    using l1 by (simp add: length_continuesMarker)
  show ?thesis
    unfolding getRelevantContext_def finalizeContext_def Let_def a
    using len cut by (simp add: substring0_take)
qed

text \<open>
  Claim C3. For a non-empty document the returned string is never empty
  (\<open>getRelevantContext_nonempty\<close>). With no context from the excerpt, mention, chapter,
  keyword and rename steps, a document that fits the budget \<open>B\<close> is returned whole, followed
  by the annotations (\<open>fallback_fits\<close>). A document that does not fit is to yield its first
  \<open>floor(0.7 * B)\<close> characters, the continuation marker and its last \<open>floor(0.3 * B)\<close>
  characters. The source assembles this text (\<open>fallback_assembled\<close>) and spends the whole
  budget on the head and the tail, so with the 32 characters of the marker the text is longer
  than \<open>B\<close>, and the limit of lines 266 to 268 cuts the tail and appends the truncation
  marker. With no index, the document of 40 characters, no excerpt, the empty instruction and
  the budget 10, the head has 7 characters and the tail 3, and what is returned is the first
  10 characters of head, marker and tail, then the truncation marker: the tail is lost. At
  the default budget the last 32 characters of the tail are lost
  (\<open>fallback_cut_at_default_budget\<close>).
\<close>

theorem fallback_tail_cut:
  "fst (stepsContext newIndex longDoc None [] 10) = [] \<and>
   int (length longDoc) > 10 \<and>
   floorOf70Percent 10 = 7 \<and> floorOf30Percent 10 = 3 \<and>
   getRelevantContext newIndex longDoc None [] 10 =
     substring (substring longDoc 0 7 @ continuesMarker @
                substringFrom longDoc (int (length longDoc) - 3)) 0 10 @ truncatedMarker \<and>
   getRelevantContext newIndex longDoc None [] 10 \<noteq>
     substring longDoc 0 7 @ continuesMarker @ substringFrom longDoc (int (length longDoc) - 3)"
  by code_simp

end
